theory Spec2Isabelle
  imports Complex_Main "HOL-Library.Sublist"
begin

section \<open>JavaScript values and number primitives\<close>

text \<open>
  Strings are lists of code units; \<open>===\<close> on two strings is equality of the lists,
  \<open>includes\<close>, \<open>startsWith\<close> and \<open>endsWith\<close> are the contiguous-sublist, prefix and
  suffix tests. Where the source passes \<open>undefined\<close> to a string method, JavaScript
  converts it to the string \<open>undefined\<close> first; \<open>None\<close> stands for \<open>undefined\<close>.

  Numbers are IEEE doubles in the source. Their type is a parameter \<open>'n\<close> here, and the
  built-in operations on them (parsing, the NaN test, the comparisons, the conversions
  to and from the other primitive types) are the fields of a record passed to every
  function that computes with numbers, so that every theorem holds whatever these
  built-ins compute.
\<close>

record 'n JSNumber =
  parseFloat :: "string \<Rightarrow> 'n"
  isNaN :: "'n \<Rightarrow> bool"
  num_gt :: "'n \<Rightarrow> 'n \<Rightarrow> bool"
  num_ge :: "'n \<Rightarrow> 'n \<Rightarrow> bool"
  num_lt :: "'n \<Rightarrow> 'n \<Rightarrow> bool"
  num_le :: "'n \<Rightarrow> 'n \<Rightarrow> bool"
  num_NaN :: "'n"
  num_zero :: "'n"
  num_one :: "'n"
  Boolean_num :: "'n \<Rightarrow> bool"
  String_num :: "'n \<Rightarrow> string"
  Number_str :: "string \<Rightarrow> 'n"

definition ToString :: "string option \<Rightarrow> string" where
  "ToString s = (case s of None \<Rightarrow> ''undefined'' | Some t \<Rightarrow> t)"

definition str_includes :: "string \<Rightarrow> string option \<Rightarrow> bool" where
  "str_includes v target = sublist (ToString target) v"

definition startsWith :: "string \<Rightarrow> string option \<Rightarrow> bool" where
  "startsWith v target = prefix (ToString target) v"

definition endsWith :: "string \<Rightarrow> string option \<Rightarrow> bool" where
  "endsWith v target = suffix (ToString target) v"

section \<open>Context (context.ts)\<close>

record Attribute =
  attr_key :: string
  attr_values :: "string list"

definition getValues :: "Attribute \<Rightarrow> string list" where
  "getValues a = attr_values a"

record Context =
  ctx_type :: string
  ctx_name :: "string option"
  ctx_identifier :: "string option"
  ctx_attributes :: "string \<rightharpoonup> Attribute"

definition addAttribute :: "Attribute \<Rightarrow> Context \<Rightarrow> Context" where
  "addAttribute a c = c\<lparr>ctx_attributes := (ctx_attributes c)(attr_key a \<mapsto> a)\<rparr>"

definition getAttribute :: "Context \<Rightarrow> string \<Rightarrow> Attribute option" where
  "getAttribute c k = ctx_attributes c k"

definition new_Context :: "string \<Rightarrow> Context" where
  "new_Context t =
     \<lparr>ctx_type = t, ctx_name = None, ctx_identifier = None, ctx_attributes = Map.empty\<rparr>"

section \<open>Rules (types.ts)\<close>

text \<open>A clause value is \<open>string | string[]\<close>; the optional field is an \<open>option\<close>.\<close>

datatype ClauseValue = Single string | Multi "string list"

record RuleCondition =
  clause_attribute :: string
  clause_operator :: string
  clause_value :: "ClauseValue option"

text \<open>
  The innermost value object \<open>{boolean?, string?, number?}\<close> is kept as the list of its
  own properties in enumeration order, since the accessors of a flag test which keys are
  present and fall back on the first property.
\<close>

datatype 'n jsval = JUndefined | JNull | JBool bool | JStr string | JNum 'n

type_synonym 'n envelope = "(string \<times> 'n jsval) list"

record 'n TargetValue =
  tv_version :: "string option"
  tv_value :: "'n envelope"

record 'n Rule =
  rule_version :: "string option"
  rule_description :: "string option"
  criteria :: "RuleCondition option"
  clauses :: "RuleCondition list option"
  position :: "'n option"
  rule_value :: "'n TargetValue"

section \<open>Rule engine (rule-engine.ts)\<close>

text \<open>\<open>Array.isArray(clauseValue) ? clauseValue[0] : clauseValue\<close>; the first element of an
  empty array is \<open>undefined\<close>.\<close>

definition firstTarget :: "ClauseValue \<Rightarrow> string option" where
  "firstTarget cv = (case cv of Single s \<Rightarrow> Some s | Multi [] \<Rightarrow> None | Multi (t # _) \<Rightarrow> Some t)"

definition evaluateEquals :: "string list \<Rightarrow> ClauseValue option \<Rightarrow> bool" where
  "evaluateEquals vs clauseValue =
     (case clauseValue of None \<Rightarrow> False
      | Some cv \<Rightarrow> list_ex (\<lambda>v. Some v = firstTarget cv) vs)"

definition evaluateContains :: "string list \<Rightarrow> ClauseValue option \<Rightarrow> bool" where
  "evaluateContains vs clauseValue =
     (case clauseValue of None \<Rightarrow> False
      | Some cv \<Rightarrow> list_ex (\<lambda>v. str_includes v (firstTarget cv)) vs)"

definition evaluateIn :: "string list \<Rightarrow> ClauseValue option \<Rightarrow> bool" where
  "evaluateIn vs clauseValue =
     (case clauseValue of None \<Rightarrow> False
      | Some cv \<Rightarrow>
          (let targets = (case cv of Multi ts \<Rightarrow> ts | Single s \<Rightarrow> [s])
           in list_ex (\<lambda>v. List.member targets v) vs))"

definition evaluateStartsWith :: "string list \<Rightarrow> ClauseValue option \<Rightarrow> bool" where
  "evaluateStartsWith vs clauseValue =
     (case clauseValue of None \<Rightarrow> False
      | Some cv \<Rightarrow> list_ex (\<lambda>v. startsWith v (firstTarget cv)) vs)"

definition evaluateEndsWith :: "string list \<Rightarrow> ClauseValue option \<Rightarrow> bool" where
  "evaluateEndsWith vs clauseValue =
     (case clauseValue of None \<Rightarrow> False
      | Some cv \<Rightarrow> list_ex (\<lambda>v. endsWith v (firstTarget cv)) vs)"

definition evaluateGreaterThan ::
  "'n JSNumber \<Rightarrow> string list \<Rightarrow> ClauseValue option \<Rightarrow> bool" where
  "evaluateGreaterThan J vs clauseValue =
     (case clauseValue of None \<Rightarrow> False
      | Some cv \<Rightarrow>
          (let targetNum = parseFloat J (ToString (firstTarget cv))
           in if isNaN J targetNum then False
              else list_ex (\<lambda>v. let num = parseFloat J v
                                 in \<not> isNaN J num \<and> num_gt J num targetNum) vs))"

definition evaluateGreaterThanOrEqual ::
  "'n JSNumber \<Rightarrow> string list \<Rightarrow> ClauseValue option \<Rightarrow> bool" where
  "evaluateGreaterThanOrEqual J vs clauseValue =
     (case clauseValue of None \<Rightarrow> False
      | Some cv \<Rightarrow>
          (let targetNum = parseFloat J (ToString (firstTarget cv))
           in if isNaN J targetNum then False
              else list_ex (\<lambda>v. let num = parseFloat J v
                                 in \<not> isNaN J num \<and> num_ge J num targetNum) vs))"

definition evaluateLessThan ::
  "'n JSNumber \<Rightarrow> string list \<Rightarrow> ClauseValue option \<Rightarrow> bool" where
  "evaluateLessThan J vs clauseValue =
     (case clauseValue of None \<Rightarrow> False
      | Some cv \<Rightarrow>
          (let targetNum = parseFloat J (ToString (firstTarget cv))
           in if isNaN J targetNum then False
              else list_ex (\<lambda>v. let num = parseFloat J v
                                 in \<not> isNaN J num \<and> num_lt J num targetNum) vs))"

definition evaluateLessThanOrEqual ::
  "'n JSNumber \<Rightarrow> string list \<Rightarrow> ClauseValue option \<Rightarrow> bool" where
  "evaluateLessThanOrEqual J vs clauseValue =
     (case clauseValue of None \<Rightarrow> False
      | Some cv \<Rightarrow>
          (let targetNum = parseFloat J (ToString (firstTarget cv))
           in if isNaN J targetNum then False
              else list_ex (\<lambda>v. let num = parseFloat J v
                                 in \<not> isNaN J num \<and> num_le J num targetNum) vs))"

definition evaluateClause :: "'n JSNumber \<Rightarrow> RuleCondition \<Rightarrow> Context \<Rightarrow> bool" where
  "evaluateClause J clause context =
     (case getAttribute context (clause_attribute clause) of
        None \<Rightarrow> False
      | Some attribute \<Rightarrow>
          (let attributeValues = getValues attribute;
               op = clause_operator clause;
               cv = clause_value clause
           in if op = ''equals'' then evaluateEquals attributeValues cv
              else if op = ''not_equals'' then \<not> evaluateEquals attributeValues cv
              else if op = ''contains'' then evaluateContains attributeValues cv
              else if op = ''not_contains'' then \<not> evaluateContains attributeValues cv
              else if op = ''in'' then evaluateIn attributeValues cv
              else if op = ''not_in'' then \<not> evaluateIn attributeValues cv
              else if op = ''starts_with'' then evaluateStartsWith attributeValues cv
              else if op = ''ends_with'' then evaluateEndsWith attributeValues cv
              else if op = ''gt'' then evaluateGreaterThan J attributeValues cv
              else if op = ''gte'' then evaluateGreaterThanOrEqual J attributeValues cv
              else if op = ''lt'' then evaluateLessThan J attributeValues cv
              else if op = ''lte'' then evaluateLessThanOrEqual J attributeValues cv
              else False))"

text \<open>\<open>rule.clauses && rule.clauses.length > 0\<close>\<close>

definition hasClauses :: "'n Rule \<Rightarrow> bool" where
  "hasClauses rule = (case clauses rule of None \<Rightarrow> False | Some cs \<Rightarrow> 0 < length cs)"

definition evaluateRule :: "'n JSNumber \<Rightarrow> 'n Rule \<Rightarrow> Context \<Rightarrow> bool" where
  "evaluateRule J rule context =
     (if hasClauses rule
      then (case clauses rule of None \<Rightarrow> False
            | Some cs \<Rightarrow> list_all (\<lambda>clause. evaluateClause J clause context) cs)
      else (case criteria rule of
              Some c \<Rightarrow> evaluateClause J c context
            | None \<Rightarrow> True))"

text \<open>The \<open>for ... of\<close> loop of \<open>evaluate\<close>: the first rule that matches is returned,
  \<open>None\<close> is the source's \<open>null\<close>.\<close>

fun evaluate :: "'n JSNumber \<Rightarrow> 'n Rule list \<Rightarrow> Context \<Rightarrow> 'n Rule option" where
  "evaluate J [] context = None"
| "evaluate J (rule # rules) context =
     (if evaluateRule J rule context then Some rule else evaluate J rules context)"

section \<open>Flag (flag.ts)\<close>

datatype FlagType = TBoolean | TString | TNumber

text \<open>A timestamp field of a target is \<open>string | null\<close> and optional: \<open>None\<close> is the
  missing field, \<open>Some None\<close> is \<open>null\<close>.\<close>

record 'n FlagTarget =
  target_version :: "string option"
  expired_at :: "string option option"
  published_at :: "string option option"
  scheduled_at :: "string option option"
  target_value :: "'n TargetValue"

record 'n Flag =
  flag_version :: string
  flag_type :: FlagType
  flag_key :: string
  flag_name :: string
  flag_target :: "'n FlagTarget"
  flag_rules :: "'n Rule list"

record 'n FlagData =
  fd_version :: string
  fd_type :: FlagType
  fd_key :: string
  fd_name :: string
  fd_target :: "'n FlagTarget"
  fd_rules :: "'n Rule list option"

record 'n RulesResponse =
  resp_version :: string
  resp_flags :: "'n FlagData list"

definition getVersion :: "'n Flag \<Rightarrow> string" where
  "getVersion f = flag_version f"

definition getType :: "'n Flag \<Rightarrow> FlagType" where
  "getType f = flag_type f"

definition getKey :: "'n Flag \<Rightarrow> string" where
  "getKey f = flag_key f"

definition getName :: "'n Flag \<Rightarrow> string" where
  "getName f = flag_name f"

definition getTarget :: "'n Flag \<Rightarrow> 'n FlagTarget" where
  "getTarget f = flag_target f"

definition getRules :: "'n Flag \<Rightarrow> 'n Rule list" where
  "getRules f = flag_rules f"

text \<open>\<open>k in value\<close>, \<open>value.k\<close> and \<open>Object.values(value)[0]\<close> on the property list.\<close>

definition has_key :: "string \<Rightarrow> 'n envelope \<Rightarrow> bool" where
  "has_key k env = (map_of env k \<noteq> None)"

definition get_prop :: "string \<Rightarrow> 'n envelope \<Rightarrow> 'n jsval" where
  "get_prop k env = (case map_of env k of None \<Rightarrow> JUndefined | Some v \<Rightarrow> v)"

definition firstValue :: "'n envelope \<Rightarrow> 'n jsval" where
  "firstValue env = (case env of [] \<Rightarrow> JUndefined | (k, v) # _ \<Rightarrow> v)"

text \<open>The conversions \<open>Boolean(x)\<close>, \<open>String(x)\<close> and \<open>Number(x)\<close> on primitive values.\<close>

definition Boolean_js :: "'n JSNumber \<Rightarrow> 'n jsval \<Rightarrow> bool" where
  "Boolean_js J v =
     (case v of JUndefined \<Rightarrow> False | JNull \<Rightarrow> False | JBool b \<Rightarrow> b
      | JStr s \<Rightarrow> s \<noteq> [] | JNum n \<Rightarrow> Boolean_num J n)"

definition String_js :: "'n JSNumber \<Rightarrow> 'n jsval \<Rightarrow> string" where
  "String_js J v =
     (case v of JUndefined \<Rightarrow> ''undefined'' | JNull \<Rightarrow> ''null''
      | JBool b \<Rightarrow> (if b then ''true'' else ''false'')
      | JStr s \<Rightarrow> s | JNum n \<Rightarrow> String_num J n)"

definition Number_js :: "'n JSNumber \<Rightarrow> 'n jsval \<Rightarrow> 'n" where
  "Number_js J v =
     (case v of JUndefined \<Rightarrow> num_NaN J | JNull \<Rightarrow> num_zero J
      | JBool b \<Rightarrow> (if b then num_one J else num_zero J)
      | JStr s \<Rightarrow> Number_str J s | JNum n \<Rightarrow> n)"

definition flag_envelope :: "'n Flag \<Rightarrow> 'n envelope" where
  "flag_envelope f = tv_value (target_value (flag_target f))"

text \<open>In \<open>isEnabled\<close> the last line converts the value object itself, and an object is
  always truthy.\<close>

definition isEnabled :: "'n JSNumber \<Rightarrow> 'n Flag \<Rightarrow> bool" where
  "isEnabled J f =
     (if flag_type f \<noteq> TBoolean then False
      else (let v = flag_envelope f
            in if has_key ''boolean'' v then Boolean_js J (get_prop ''boolean'' v)
               else True))"

definition asBool :: "'n JSNumber \<Rightarrow> 'n Flag \<Rightarrow> bool" where
  "asBool J f =
     (let v = flag_envelope f
      in if has_key ''boolean'' v then Boolean_js J (get_prop ''boolean'' v)
         else if has_key ''number'' v then Boolean_js J (get_prop ''number'' v)
         else if has_key ''string'' v then Boolean_js J (get_prop ''string'' v)
         else Boolean_js J (firstValue v))"

definition asString :: "'n JSNumber \<Rightarrow> 'n Flag \<Rightarrow> string" where
  "asString J f =
     (let v = flag_envelope f
      in if has_key ''string'' v then String_js J (get_prop ''string'' v)
         else if has_key ''boolean'' v then String_js J (get_prop ''boolean'' v)
         else if has_key ''number'' v then String_js J (get_prop ''number'' v)
         else (let first = firstValue v
               in if first \<noteq> JUndefined then String_js J first else []))"

definition asNumber :: "'n JSNumber \<Rightarrow> 'n Flag \<Rightarrow> 'n" where
  "asNumber J f =
     (let v = flag_envelope f
      in if has_key ''number'' v then Number_js J (get_prop ''number'' v)
         else if has_key ''string'' v then
           (let parsed = parseFloat J (String_js J (get_prop ''string'' v))
            in if isNaN J parsed then num_zero J else parsed)
         else if has_key ''boolean'' v then
           (if Boolean_js J (get_prop ''boolean'' v) then num_one J else num_zero J)
         else (let first = firstValue v
               in if first = JUndefined then num_zero J
                  else (let parsed = parseFloat J (String_js J first)
                        in if isNaN J parsed then num_zero J else parsed)))"

definition getValue :: "'n Flag \<Rightarrow> 'n jsval" where
  "getValue f =
     (let v = flag_envelope f
      in if has_key ''boolean'' v then get_prop ''boolean'' v
         else if has_key ''string'' v then get_prop ''string'' v
         else if has_key ''number'' v then get_prop ''number'' v
         else (let first = firstValue v
               in if first \<noteq> JUndefined then first else JStr []))"

definition fromObject :: "'n FlagData \<Rightarrow> 'n Flag" where
  "fromObject d =
     \<lparr>flag_version = fd_version d, flag_type = fd_type d, flag_key = fd_key d,
      flag_name = fd_name d, flag_target = fd_target d,
      flag_rules = (case fd_rules d of None \<Rightarrow> [] | Some rs \<Rightarrow> rs)\<rparr>"

text \<open>
  The order of preference the specification gives for all four accessors: boolean, then
  string, then number, then the first property. Each function below is the accessor of
  the source with its three key tests put in that order; the conversions are unchanged.
\<close>

definition spec_asBool :: "'n JSNumber \<Rightarrow> 'n Flag \<Rightarrow> bool" where
  "spec_asBool J f =
     (let v = flag_envelope f
      in if has_key ''boolean'' v then Boolean_js J (get_prop ''boolean'' v)
         else if has_key ''string'' v then Boolean_js J (get_prop ''string'' v)
         else if has_key ''number'' v then Boolean_js J (get_prop ''number'' v)
         else Boolean_js J (firstValue v))"

definition spec_asString :: "'n JSNumber \<Rightarrow> 'n Flag \<Rightarrow> string" where
  "spec_asString J f =
     (let v = flag_envelope f
      in if has_key ''boolean'' v then String_js J (get_prop ''boolean'' v)
         else if has_key ''string'' v then String_js J (get_prop ''string'' v)
         else if has_key ''number'' v then String_js J (get_prop ''number'' v)
         else (let first = firstValue v
               in if first \<noteq> JUndefined then String_js J first else []))"

definition spec_asNumber :: "'n JSNumber \<Rightarrow> 'n Flag \<Rightarrow> 'n" where
  "spec_asNumber J f =
     (let v = flag_envelope f
      in if has_key ''boolean'' v then
           (if Boolean_js J (get_prop ''boolean'' v) then num_one J else num_zero J)
         else if has_key ''string'' v then
           (let parsed = parseFloat J (String_js J (get_prop ''string'' v))
            in if isNaN J parsed then num_zero J else parsed)
         else if has_key ''number'' v then Number_js J (get_prop ''number'' v)
         else (let first = firstValue v
               in if first = JUndefined then num_zero J
                  else (let parsed = parseFloat J (String_js J first)
                        in if isNaN J parsed then num_zero J else parsed)))"

section \<open>Defaults collection (defaults-collection.ts)\<close>

datatype 'n FlagValue = VBool bool | VNum 'n | VStr string

type_synonym 'n DefaultsCollection = "string \<rightharpoonup> 'n FlagValue"

definition defaults_set :: "string \<Rightarrow> 'n FlagValue \<Rightarrow> 'n DefaultsCollection \<Rightarrow> 'n DefaultsCollection" where
  "defaults_set k v d = d(k \<mapsto> v)"

definition defaults_get :: "'n DefaultsCollection \<Rightarrow> string \<Rightarrow> 'n FlagValue option" where
  "defaults_get d k = d k"

definition defaults_has :: "'n DefaultsCollection \<Rightarrow> string \<Rightarrow> bool" where
  "defaults_has d k = (d k \<noteq> None)"

text \<open>A default value as the value stored in the innermost value object.\<close>

definition FlagValue_js :: "'n FlagValue \<Rightarrow> 'n jsval" where
  "FlagValue_js v = (case v of VBool b \<Rightarrow> JBool b | VNum n \<Rightarrow> JNum n | VStr s \<Rightarrow> JStr s)"

section \<open>Errors (errors.ts)\<close>

datatype error =
    ConfigurationError string
  | EvaluationError string
  | FetchRulesError string "int option"
  | InvalidRulesError string
  | OtherError string

section \<open>In-memory cache (cache/memory-cache.ts)\<close>

text \<open>
  The clock \<open>Date.now()\<close> is an argument of every operation that reads it. Clock readings
  (milliseconds) and time-to-live values (seconds) are real numbers: the source computes
  the deadline \<open>Date.now() + ttl * 1000\<close> in doubles, whose rounding and NaN are not
  modelled.
\<close>

record CacheItem =
  item_value :: string
  expires :: "real option"

type_synonym InMemoryCache = "string \<rightharpoonup> CacheItem"

definition InMemoryCache_get :: "string \<Rightarrow> real \<Rightarrow> InMemoryCache \<Rightarrow> string option \<times> InMemoryCache" where
  "InMemoryCache_get k now storage =
     (case storage k of
        None \<Rightarrow> (None, storage)
      | Some item \<Rightarrow>
          (if expires item \<noteq> None \<and> (case expires item of None \<Rightarrow> False | Some e \<Rightarrow> e < now)
           then (None, storage(k := None))
           else (Some (item_value item), storage)))"

definition InMemoryCache_set ::
  "string \<Rightarrow> string \<Rightarrow> real option \<Rightarrow> real \<Rightarrow> InMemoryCache \<Rightarrow> InMemoryCache" where
  "InMemoryCache_set k v ttl now storage =
     (let exp = (case ttl of Some t \<Rightarrow> Some (now + t * 1000) | None \<Rightarrow> None)
      in storage(k \<mapsto> \<lparr>item_value = v, expires = exp\<rparr>))"

definition InMemoryCache_has :: "string \<Rightarrow> real \<Rightarrow> InMemoryCache \<Rightarrow> bool \<times> InMemoryCache" where
  "InMemoryCache_has k now storage =
     (case InMemoryCache_get k now storage of (v, storage') \<Rightarrow> (v \<noteq> None, storage'))"

definition InMemoryCache_delete :: "string \<Rightarrow> InMemoryCache \<Rightarrow> InMemoryCache" where
  "InMemoryCache_delete k storage = storage(k := None)"

definition InMemoryCache_clear :: "InMemoryCache \<Rightarrow> InMemoryCache" where
  "InMemoryCache_clear storage = Map.empty"

section \<open>Flag manager (flag-manager.ts)\<close>

definition CACHE_KEY :: string where
  "CACHE_KEY = ''zenmanage_rules''"

text \<open>
  The fields of a manager that change: the loaded flags (\<open>None\<close> is the source's \<open>null\<close>,
  not yet loaded), the current context and the current defaults.
\<close>

record 'n FlagManager =
  mgr_flags :: "'n Flag list option"
  mgr_context :: Context
  mgr_defaults :: "'n DefaultsCollection"

text \<open>
  The collaborators a manager is constructed with, and the built-ins it calls:
  the outcome of \<open>apiClient.getRules()\<close> (a raised error or the document), the cache
  behind the \<open>Cache\<close> interface as functions on its state \<open>'c\<close> (none of the three
  implementations of the repository raises), \<open>JSON.stringify\<close> on a document, and the
  cached text turned back into flag data: \<open>JSON.parse\<close>, the test
  \<open>data && Array.isArray(data.flags)\<close> and the mapping over \<open>data.flags\<close>, where
  \<open>None\<close> is a raised error or a failed test (both fall through to the remote load).
  The logger only receives messages and is left out.
\<close>

record ('n, 'c) Collaborators =
  api_getRules :: "error + 'n RulesResponse"
  cache_get :: "string \<Rightarrow> 'c \<Rightarrow> string option \<times> 'c"
  cache_set :: "string \<Rightarrow> string \<Rightarrow> real option \<Rightarrow> 'c \<Rightarrow> 'c"
  cacheTtl :: real
  JSON_stringify :: "'n RulesResponse \<Rightarrow> string"
  JSON_parse_flags :: "string \<Rightarrow> 'n FlagData list option"

text \<open>What lies outside the manager and is changed by it: the state of the cache and the
  calls made to \<open>apiClient.reportUsage\<close>, in order.\<close>

record 'c World =
  cache_state :: 'c
  usage_reports :: "(string \<times> Context option) list"

definition reportUsage :: "string \<Rightarrow> Context option \<Rightarrow> 'c World \<Rightarrow> 'c World" where
  "reportUsage k c w = w\<lparr>usage_reports := usage_reports w @ [(k, c)]\<rparr>"

definition withContext :: "Context \<Rightarrow> 'n FlagManager \<Rightarrow> 'n FlagManager" where
  "withContext c m = m\<lparr>mgr_context := c\<rparr>"

definition withDefaults :: "'n DefaultsCollection \<Rightarrow> 'n FlagManager \<Rightarrow> 'n FlagManager" where
  "withDefaults d m = m\<lparr>mgr_defaults := d\<rparr>"

definition loadRulesFromApi ::
  "('n, 'c) Collaborators \<Rightarrow> 'n FlagManager \<Rightarrow> 'c World
     \<Rightarrow> (error + unit) \<times> 'n FlagManager \<times> 'c World" where
  "loadRulesFromApi E m w =
     (case api_getRules E of
        Inr response \<Rightarrow>
          (Inr (),
           m\<lparr>mgr_flags := Some (map fromObject (resp_flags response))\<rparr>,
           w\<lparr>cache_state :=
               cache_set E CACHE_KEY (JSON_stringify E response) (Some (cacheTtl E))
                 (cache_state w)\<rparr>)
      | Inl err \<Rightarrow> (Inl err, m\<lparr>mgr_flags := Some []\<rparr>, w))"

definition refreshRules ::
  "('n, 'c) Collaborators \<Rightarrow> 'n FlagManager \<Rightarrow> 'c World
     \<Rightarrow> (error + unit) \<times> 'n FlagManager \<times> 'c World" where
  "refreshRules E m w = loadRulesFromApi E m w"

definition ensureRulesLoaded ::
  "('n, 'c) Collaborators \<Rightarrow> 'n FlagManager \<Rightarrow> 'c World
     \<Rightarrow> (error + unit) \<times> 'n FlagManager \<times> 'c World" where
  "ensureRulesLoaded E m w =
     (if mgr_flags m \<noteq> None then (Inr (), m, w)
      else (case cache_get E CACHE_KEY (cache_state w) of
              (cached, c') \<Rightarrow>
                (let w' = w\<lparr>cache_state := c'\<rparr>
                 in case cached of
                      None \<Rightarrow> loadRulesFromApi E m w'
                    | Some text \<Rightarrow>
                        (case JSON_parse_flags E text of
                           Some fds \<Rightarrow> (Inr (), m\<lparr>mgr_flags := Some (map fromObject fds)\<rparr>, w')
                         | None \<Rightarrow> loadRulesFromApi E m w'))))"

definition evaluateFlag :: "'n JSNumber \<Rightarrow> 'n FlagManager \<Rightarrow> 'n Flag \<Rightarrow> 'n Flag" where
  "evaluateFlag J m flag =
     (let rules = getRules flag
      in if length rules = 0 then flag
         else (case evaluate J rules (mgr_context m) of
                 Some matchedRule \<Rightarrow>
                   (let newTarget =
                          \<lparr>target_version = target_version (getTarget flag),
                           expired_at = expired_at (getTarget flag),
                           published_at = published_at (getTarget flag),
                           scheduled_at = scheduled_at (getTarget flag),
                           target_value = rule_value matchedRule\<rparr>
                    in \<lparr>flag_version = getVersion flag, flag_type = getType flag,
                        flag_key = getKey flag, flag_name = getName flag,
                        flag_target = newTarget, flag_rules = rules\<rparr>)
               | None \<Rightarrow> flag))"

definition createFlagFromDefault :: "string \<Rightarrow> 'n FlagValue \<Rightarrow> 'n Flag" where
  "createFlagFromDefault k defaultValue =
     (let (t, env) =
            (case defaultValue of
               VBool b \<Rightarrow> (TBoolean, [(''boolean'', JBool b)])
             | VNum n \<Rightarrow> (TNumber, [(''number'', JNum n)])
             | VStr s \<Rightarrow> (TString, [(''string'', JStr s)]))
      in \<lparr>flag_version = ''1'', flag_type = t, flag_key = k, flag_name = k,
          flag_target =
            \<lparr>target_version = None, expired_at = None, published_at = None,
             scheduled_at = None,
             target_value = \<lparr>tv_version = None, tv_value = env\<rparr>\<rparr>,
          flag_rules = []\<rparr>)"

definition loadedFlags :: "'n FlagManager \<Rightarrow> 'n Flag list" where
  "loadedFlags m = (case mgr_flags m of None \<Rightarrow> [] | Some fs \<Rightarrow> fs)"

definition single ::
  "'n JSNumber \<Rightarrow> ('n, 'c) Collaborators \<Rightarrow> string \<Rightarrow> 'n FlagValue option
     \<Rightarrow> 'n FlagManager \<Rightarrow> 'c World \<Rightarrow> (error + 'n Flag) \<times> 'n FlagManager \<times> 'c World" where
  "single J E k defaultValue m w =
     (case ensureRulesLoaded E m w of
        (Inl err, m', w') \<Rightarrow> (Inl err, m', w')
      | (Inr _, m', w') \<Rightarrow>
          (case find (\<lambda>flag. getKey flag = k) (loadedFlags m') of
             Some flag \<Rightarrow>
               (Inr (evaluateFlag J m' flag), m', reportUsage k (Some (mgr_context m')) w')
           | None \<Rightarrow>
               (case defaultValue of
                  Some dv \<Rightarrow>
                    (Inr (createFlagFromDefault k dv), m',
                     reportUsage k (Some (mgr_context m')) w')
                | None \<Rightarrow>
                    (if defaults_has (mgr_defaults m') k
                     then (case defaults_get (mgr_defaults m') k of
                             Some defaultVal \<Rightarrow>
                               (Inr (createFlagFromDefault k defaultVal), m',
                                reportUsage k (Some (mgr_context m')) w')
                           | None \<Rightarrow> (Inl (EvaluationError (''Flag not found: '' @ k)), m', w'))
                     else (Inl (EvaluationError (''Flag not found: '' @ k)), m', w')))))"

definition all_flags ::
  "'n JSNumber \<Rightarrow> ('n, 'c) Collaborators \<Rightarrow> 'n FlagManager \<Rightarrow> 'c World
     \<Rightarrow> (error + 'n Flag list) \<times> 'n FlagManager \<times> 'c World" where
  "all_flags J E m w =
     (case ensureRulesLoaded E m w of
        (Inl err, m', w') \<Rightarrow> (Inl err, m', w')
      | (Inr _, m', w') \<Rightarrow> (Inr (map (evaluateFlag J m') (loadedFlags m')), m', w'))"

section \<open>Sample instances for evaluation\<close>

text \<open>
  An instance of the number primitives over \<open>int option\<close>, with \<open>None\<close> for NaN, on which
  the definitions above can be run. Its \<open>parseFloat\<close> reads the longest prefix of decimal
  digits and its \<open>Number\<close> a string of decimal digits; they agree with JavaScript on
  strings of digits, and integers print in decimal. On other strings and numbers the
  instance is only a stand-in.
\<close>

definition digit_value :: "char \<Rightarrow> int option" where
  "digit_value c =
     map_of [(CHR ''0'', 0), (CHR ''1'', 1), (CHR ''2'', 2), (CHR ''3'', 3), (CHR ''4'', 4),
             (CHR ''5'', 5), (CHR ''6'', 6), (CHR ''7'', 7), (CHR ''8'', 8), (CHR ''9'', 9)] c"

fun read_digits :: "string \<Rightarrow> int option \<Rightarrow> int option" where
  "read_digits [] acc = acc"
| "read_digits (c # cs) acc =
     (case digit_value c of
        None \<Rightarrow> acc
      | Some d \<Rightarrow> read_digits cs (Some (10 * (case acc of None \<Rightarrow> 0 | Some a \<Rightarrow> a) + d)))"

fun show_nat :: "nat \<Rightarrow> string" where
  "show_nat n =
     (if n < 10 then [''0123456789'' ! n]
      else show_nat (n div 10) @ [''0123456789'' ! (n mod 10)])"

declare show_nat.simps [simp del]

definition show_int :: "int \<Rightarrow> string" where
  "show_int i = (if i < 0 then CHR ''-'' # show_nat (nat (- i)) else show_nat (nat i))"

definition both :: "(int \<Rightarrow> int \<Rightarrow> bool) \<Rightarrow> int option \<Rightarrow> int option \<Rightarrow> bool" where
  "both r a b = (case (a, b) of (Some x, Some y) \<Rightarrow> r x y | _ \<Rightarrow> False)"

definition sampleJS :: "int option JSNumber" where
  "sampleJS =
     \<lparr>parseFloat = (\<lambda>s. read_digits s None),
      isNaN = (\<lambda>n. n = None),
      num_gt = both (\<lambda>x y. y < x),
      num_ge = both (\<lambda>x y. y \<le> x),
      num_lt = both (\<lambda>x y. x < y),
      num_le = both (\<lambda>x y. x \<le> y),
      num_NaN = None,
      num_zero = Some 0,
      num_one = Some 1,
      Boolean_num = (\<lambda>n. n \<noteq> None \<and> n \<noteq> Some 0),
      String_num = (\<lambda>n. case n of None \<Rightarrow> ''NaN'' | Some i \<Rightarrow> show_int i),
      Number_str =
        (\<lambda>s. if s = [] then Some 0
             else if list_all (\<lambda>c. digit_value c \<noteq> None) s then read_digits s None
             else None)\<rparr>"

text \<open>The in-memory cache behind the \<open>Cache\<close> interface, read at clock \<open>t1\<close> and written
  at clock \<open>t2\<close>.\<close>

definition memoryCollaborators ::
  "error + 'n RulesResponse \<Rightarrow> real \<Rightarrow> real \<Rightarrow> real \<Rightarrow> ('n RulesResponse \<Rightarrow> string)
     \<Rightarrow> (string \<Rightarrow> 'n FlagData list option) \<Rightarrow> ('n, InMemoryCache) Collaborators" where
  "memoryCollaborators outcome ttl t1 t2 str parse =
     \<lparr>api_getRules = outcome,
      cache_get = (\<lambda>k. InMemoryCache_get k t1),
      cache_set = (\<lambda>k v ttl'. InMemoryCache_set k v ttl' t2),
      cacheTtl = ttl,
      JSON_stringify = str,
      JSON_parse_flags = parse\<rparr>"

definition mkClause :: "string \<Rightarrow> string \<Rightarrow> ClauseValue option \<Rightarrow> RuleCondition" where
  "mkClause a op v = \<lparr>clause_attribute = a, clause_operator = op, clause_value = v\<rparr>"

definition mkEnvelope :: "'n envelope \<Rightarrow> 'n TargetValue" where
  "mkEnvelope env = \<lparr>tv_version = None, tv_value = env\<rparr>"

definition mkRule :: "RuleCondition option \<Rightarrow> RuleCondition list option \<Rightarrow> 'n envelope \<Rightarrow> 'n Rule" where
  "mkRule cr cls env =
     \<lparr>rule_version = None, rule_description = None, criteria = cr, clauses = cls,
      position = None, rule_value = mkEnvelope env\<rparr>"

definition mkTarget :: "'n envelope \<Rightarrow> 'n FlagTarget" where
  "mkTarget env =
     \<lparr>target_version = None, expired_at = None, published_at = None, scheduled_at = None,
      target_value = mkEnvelope env\<rparr>"

definition mkFlag :: "FlagType \<Rightarrow> string \<Rightarrow> 'n envelope \<Rightarrow> 'n Rule list \<Rightarrow> 'n Flag" where
  "mkFlag t k env rs =
     \<lparr>flag_version = ''1'', flag_type = t, flag_key = k, flag_name = k,
      flag_target = mkTarget env, flag_rules = rs\<rparr>"

definition mkContext :: "(string \<times> string list) list \<Rightarrow> Context" where
  "mkContext as =
     fold (\<lambda>(k, vs). addAttribute \<lparr>attr_key = k, attr_values = vs\<rparr>) as (new_Context ''user'')"

text \<open>Sample rules, contexts and flags, after the tests of the repository.\<close>

definition rule_US :: "int option Rule" where
  "rule_US =
     mkRule None (Some [mkClause ''country'' ''equals'' (Some (Single ''US''))])
       [(''boolean'', JBool True)]"

definition rule_CA :: "int option Rule" where
  "rule_CA =
     mkRule (Some (mkClause ''country'' ''equals'' (Some (Single ''CA'')))) None
       [(''string'', JStr ''maple'')]"

definition rule_default :: "int option Rule" where
  "rule_default = mkRule None (Some []) [(''boolean'', JBool False)]"

definition sample_rules :: "int option Rule list" where
  "sample_rules = [rule_US, rule_CA, rule_default]"

definition ctx_CA :: Context where
  "ctx_CA = mkContext [(''country'', [''CA'']), (''age'', [''abc'', ''25''])]"

section \<open>What the specification says the numeric operators compute\<close>

text \<open>
  A numeric clause matches when the attribute is present, the clause has a target that
  parses, and some value of the attribute parses and compares true against the target.
\<close>

definition spec_numeric_match ::
  "'n JSNumber \<Rightarrow> ('n \<Rightarrow> 'n \<Rightarrow> bool) \<Rightarrow> RuleCondition \<Rightarrow> Context \<Rightarrow> bool" where
  "spec_numeric_match J cmp c C =
     (\<exists>a cv. getAttribute C (clause_attribute c) = Some a \<and> clause_value c = Some cv \<and>
        \<not> isNaN J (parseFloat J (ToString (firstTarget cv))) \<and>
        (\<exists>v \<in> set (getValues a). \<not> isNaN J (parseFloat J v) \<and>
           cmp (parseFloat J v) (parseFloat J (ToString (firstTarget cv)))))"

text \<open>Sample flags, a loaded manager and its surroundings.\<close>

definition flag_plain :: "int option Flag" where
  "flag_plain = mkFlag TString ''greeting'' [(''string'', JStr ''hello'')] []"

definition flag_country :: "int option Flag" where
  "flag_country = mkFlag TBoolean ''feature'' [(''boolean'', JBool False)] sample_rules"

definition flag_US :: "int option Flag" where
  "flag_US = mkFlag TBoolean ''us-only'' [(''boolean'', JBool False)] [rule_US]"

definition mgr_CA :: "int option FlagManager" where
  "mgr_CA =
     \<lparr>mgr_flags = Some [flag_plain, flag_country, flag_US], mgr_context = ctx_CA,
      mgr_defaults = [''x'' \<mapsto> VStr ''B'', ''greeting'' \<mapsto> VStr ''unused'']\<rparr>"

definition world0 :: "InMemoryCache World" where
  "world0 = \<lparr>cache_state = Map.empty, usage_reports = []\<rparr>"

definition sample_response :: "int option RulesResponse" where
  "sample_response =
     \<lparr>resp_version = ''7'',
      resp_flags =
        [\<lparr>fd_version = ''1'', fd_type = TString, fd_key = ''greeting'', fd_name = ''greeting'',
          fd_target = mkTarget [(''string'', JStr ''hello'')], fd_rules = None\<rparr>]\<rparr>"

definition api_down :: "(int option, InMemoryCache) Collaborators" where
  "api_down =
     memoryCollaborators (Inl (FetchRulesError ''Failed to fetch rules after 3 attempts'' None))
       3600 0 0 (\<lambda>r. ''document '' @ resp_version r) (\<lambda>t. None)"

definition api_up :: "(int option, InMemoryCache) Collaborators" where
  "api_up =
     memoryCollaborators (Inr sample_response)
       3600 0 0 (\<lambda>r. ''document '' @ resp_version r) (\<lambda>t. None)"

section \<open>The order in which an accessor inspects the keys\<close>

text \<open>The first key of a list of keys, in the order of the list, that the value object
  has; \<open>None\<close> when it has none of them.\<close>

definition first_present :: "string list \<Rightarrow> 'n envelope \<Rightarrow> string option" where
  "first_present order env = find (\<lambda>k. has_key k env) order"

text \<open>Value objects with more than one of the three keys.\<close>

definition flag_boolean_string :: "int option Flag" where
  "flag_boolean_string =
     mkFlag TString ''mixed'' [(''boolean'', JBool True), (''string'', JStr ''x'')] []"

definition flag_string_number :: "int option Flag" where
  "flag_string_number =
     mkFlag TNumber ''mixed'' [(''string'', JStr []), (''number'', JNum (Some 1))] []"

definition flag_boolean_number :: "int option Flag" where
  "flag_boolean_number =
     mkFlag TNumber ''mixed'' [(''boolean'', JBool True), (''number'', JNum (Some 0))] []"

text \<open>The in-memory cache after \<open>set('key1', 'value1', 0.1)\<close> at clock 1000.\<close>

definition cache1 :: InMemoryCache where
  "cache1 = InMemoryCache_set ''key1'' ''value1'' (Some (1 / 10)) 1000 Map.empty"

section \<open>Evaluation of the sample instances\<close>

lemmas sample_defs = mkRule_def mkClause_def mkContext_def mkEnvelope_def mkTarget_def mkFlag_def
  addAttribute_def new_Context_def

lemmas data_defs = rule_US_def rule_CA_def rule_default_def sample_rules_def ctx_CA_def
  flag_plain_def flag_country_def flag_US_def mgr_CA_def world0_def sample_response_def
  api_down_def api_up_def memoryCollaborators_def

lemmas engine_defs = evaluateRule_def hasClauses_def evaluateClause_def getAttribute_def
  getValues_def evaluateEquals_def evaluateContains_def evaluateIn_def evaluateStartsWith_def
  evaluateEndsWith_def evaluateGreaterThan_def evaluateGreaterThanOrEqual_def
  evaluateLessThan_def evaluateLessThanOrEqual_def firstTarget_def ToString_def
  str_includes_def startsWith_def endsWith_def

section \<open>The rule engine returns the first matching rule\<close>

lemma evaluate_find: "evaluate J R C = find (\<lambda>r. evaluateRule J r C) R"
  by (induction R) auto

lemma evaluate_None_iff: "evaluate J R C = None \<longleftrightarrow> (\<forall>r \<in> set R. \<not> evaluateRule J r C)"
  by (induction R) auto

lemma evaluate_Some_iff:
  "evaluate J R C = Some r \<longleftrightarrow>
     (\<exists>i < length R. R ! i = r \<and> evaluateRule J r C \<and> (\<forall>j < i. \<not> evaluateRule J (R ! j) C))"
  unfolding evaluate_find find_Some_iff by auto

lemma evaluateRule_clauses:
  "clauses r = Some cs \<Longrightarrow> cs \<noteq> [] \<Longrightarrow>
     evaluateRule J r C = (\<forall>c \<in> set cs. evaluateClause J c C)"
  by (simp add: evaluateRule_def hasClauses_def list_all_iff)

lemma evaluateRule_criteria:
  "clauses r = None \<or> clauses r = Some [] \<Longrightarrow> criteria r = Some c \<Longrightarrow>
     evaluateRule J r C = evaluateClause J c C"
  by (auto simp: evaluateRule_def hasClauses_def)

lemma evaluateRule_unconditional:
  "clauses r = None \<or> clauses r = Some [] \<Longrightarrow> criteria r = None \<Longrightarrow> evaluateRule J r C"
  by (auto simp: evaluateRule_def hasClauses_def)

text \<open>
  C1. For every rule list \<open>R\<close> and context \<open>C\<close>, \<open>evaluate\<close> returns a rule exactly when it
  is the first rule of \<open>R\<close>, in list order, that matches \<open>C\<close>, and returns none exactly when
  no rule of \<open>R\<close> matches (so also on the empty list). A rule with a non-empty list of
  clauses matches iff every clause matches; a rule without clauses (absent or empty) and
  with a criteria matches iff that clause matches; a rule with neither always matches.
\<close>

theorem evaluate_returns_first_matching_rule:
  "(\<forall>r. evaluate J R C = Some r \<longleftrightarrow>
      (\<exists>i < length R. R ! i = r \<and> evaluateRule J r C \<and>
         (\<forall>j < i. \<not> evaluateRule J (R ! j) C))) \<and>
   (evaluate J R C = None \<longleftrightarrow> (\<forall>r \<in> set R. \<not> evaluateRule J r C)) \<and>
   evaluate J [] C = None \<and>
   (\<forall>r cs. clauses r = Some cs \<and> cs \<noteq> [] \<longrightarrow>
      evaluateRule J r C = (\<forall>c \<in> set cs. evaluateClause J c C)) \<and>
   (\<forall>r c. (clauses r = None \<or> clauses r = Some []) \<and> criteria r = Some c \<longrightarrow>
      evaluateRule J r C = evaluateClause J c C) \<and>
   (\<forall>r. (clauses r = None \<or> clauses r = Some []) \<and> criteria r = None \<longrightarrow>
      evaluateRule J r C)"
  using evaluate_Some_iff [of J R C] evaluate_None_iff [of J R C]
    evaluateRule_clauses [of _ _ J C] evaluateRule_criteria [of _ _ J C]
    evaluateRule_unconditional [of _ J C]
  by simp

theorem evaluate_returns_first_matching_rule_witness:
  "evaluate sampleJS sample_rules ctx_CA = Some rule_CA \<and>
   (\<exists>i < length sample_rules. sample_rules ! i = rule_CA \<and>
      evaluateRule sampleJS rule_CA ctx_CA \<and>
      (\<forall>j < i. \<not> evaluateRule sampleJS (sample_rules ! j) ctx_CA)) \<and>
   clauses rule_US = Some [mkClause ''country'' ''equals'' (Some (Single ''US''))] \<and>
   \<not> evaluateRule sampleJS rule_US ctx_CA \<and>
   clauses rule_CA = None \<and>
   criteria rule_CA = Some (mkClause ''country'' ''equals'' (Some (Single ''CA''))) \<and>
   evaluateClause sampleJS (mkClause ''country'' ''equals'' (Some (Single ''CA''))) ctx_CA \<and>
   clauses rule_default = Some [] \<and> criteria rule_default = None \<and>
   evaluateRule sampleJS rule_default ctx_CA \<and>
   evaluate sampleJS [rule_US] ctx_CA = None"
proof -
  have e: "evaluate sampleJS sample_rules ctx_CA = Some rule_CA"
    by (simp add: data_defs sample_defs engine_defs)
  have us: "clauses rule_US = Some [mkClause ''country'' ''equals'' (Some (Single ''US''))]"
    and ca: "clauses rule_CA = None"
      "criteria rule_CA = Some (mkClause ''country'' ''equals'' (Some (Single ''CA'')))"
    and df: "clauses rule_default = Some []" "criteria rule_default = None"
    by (simp_all add: data_defs sample_defs)
  have n: "\<not> evaluateClause sampleJS (mkClause ''country'' ''equals'' (Some (Single ''US''))) ctx_CA"
    by (simp add: data_defs sample_defs engine_defs)
  note h = evaluate_returns_first_matching_rule [of sampleJS sample_rules ctx_CA]
  from h e have first: "\<exists>i < length sample_rules. sample_rules ! i = rule_CA \<and>
      evaluateRule sampleJS rule_CA ctx_CA \<and>
      (\<forall>j < i. \<not> evaluateRule sampleJS (sample_rules ! j) ctx_CA)"
    by blast
  then have m: "evaluateRule sampleJS rule_CA ctx_CA" by blast
  from h have hc: "\<And>r cs. clauses r = Some cs \<Longrightarrow> cs \<noteq> [] \<Longrightarrow>
      evaluateRule sampleJS r ctx_CA = (\<forall>c \<in> set cs. evaluateClause sampleJS c ctx_CA)"
    and hr: "\<And>r c. clauses r = None \<or> clauses r = Some [] \<Longrightarrow> criteria r = Some c \<Longrightarrow>
      evaluateRule sampleJS r ctx_CA = evaluateClause sampleJS c ctx_CA"
    and hu: "\<And>r. clauses r = None \<or> clauses r = Some [] \<Longrightarrow> criteria r = None \<Longrightarrow>
      evaluateRule sampleJS r ctx_CA"
    by blast+
  have "\<not> evaluateRule sampleJS rule_US ctx_CA"
    using hc [OF us] n by simp
  moreover
  have "evaluateClause sampleJS (mkClause ''country'' ''equals'' (Some (Single ''CA''))) ctx_CA"
    using hr [of rule_CA, OF _ ca(2)] ca(1) m by simp
  moreover have "evaluateRule sampleJS rule_default ctx_CA"
    using hu [of rule_default] df by simp
  moreover have "evaluate sampleJS [rule_US] ctx_CA = None"
    using evaluate_returns_first_matching_rule [of sampleJS "[rule_US]" ctx_CA] hc [OF us] n
    by simp
  ultimately show ?thesis using e first us ca df by blast
qed

section \<open>The operator dispatch of a clause\<close>

lemma evaluateClause_absent:
  "getAttribute C (clause_attribute c) = None \<Longrightarrow> \<not> evaluateClause J c C"
  by (simp add: evaluateClause_def)

lemma evaluateClause_equals:
  "clause_operator c = ''equals'' \<Longrightarrow>
     evaluateClause J c C =
       (case getAttribute C (clause_attribute c) of None \<Rightarrow> False
        | Some a \<Rightarrow> evaluateEquals (getValues a) (clause_value c))"
  by (cases "getAttribute C (clause_attribute c)") (simp_all add: evaluateClause_def)

lemma evaluateClause_not_equals:
  "clause_operator c = ''not_equals'' \<Longrightarrow>
     evaluateClause J c C =
       (case getAttribute C (clause_attribute c) of None \<Rightarrow> False
        | Some a \<Rightarrow> \<not> evaluateEquals (getValues a) (clause_value c))"
  by (cases "getAttribute C (clause_attribute c)") (simp_all add: evaluateClause_def)

lemma evaluateClause_contains:
  "clause_operator c = ''contains'' \<Longrightarrow>
     evaluateClause J c C =
       (case getAttribute C (clause_attribute c) of None \<Rightarrow> False
        | Some a \<Rightarrow> evaluateContains (getValues a) (clause_value c))"
  by (cases "getAttribute C (clause_attribute c)") (simp_all add: evaluateClause_def)

lemma evaluateClause_not_contains:
  "clause_operator c = ''not_contains'' \<Longrightarrow>
     evaluateClause J c C =
       (case getAttribute C (clause_attribute c) of None \<Rightarrow> False
        | Some a \<Rightarrow> \<not> evaluateContains (getValues a) (clause_value c))"
  by (cases "getAttribute C (clause_attribute c)") (simp_all add: evaluateClause_def)

lemma evaluateClause_in:
  "clause_operator c = ''in'' \<Longrightarrow>
     evaluateClause J c C =
       (case getAttribute C (clause_attribute c) of None \<Rightarrow> False
        | Some a \<Rightarrow> evaluateIn (getValues a) (clause_value c))"
  by (cases "getAttribute C (clause_attribute c)") (simp_all add: evaluateClause_def)

lemma evaluateClause_not_in:
  "clause_operator c = ''not_in'' \<Longrightarrow>
     evaluateClause J c C =
       (case getAttribute C (clause_attribute c) of None \<Rightarrow> False
        | Some a \<Rightarrow> \<not> evaluateIn (getValues a) (clause_value c))"
  by (cases "getAttribute C (clause_attribute c)") (simp_all add: evaluateClause_def)

lemma evaluateClause_starts_with:
  "clause_operator c = ''starts_with'' \<Longrightarrow>
     evaluateClause J c C =
       (case getAttribute C (clause_attribute c) of None \<Rightarrow> False
        | Some a \<Rightarrow> evaluateStartsWith (getValues a) (clause_value c))"
  by (cases "getAttribute C (clause_attribute c)") (simp_all add: evaluateClause_def)

lemma evaluateClause_ends_with:
  "clause_operator c = ''ends_with'' \<Longrightarrow>
     evaluateClause J c C =
       (case getAttribute C (clause_attribute c) of None \<Rightarrow> False
        | Some a \<Rightarrow> evaluateEndsWith (getValues a) (clause_value c))"
  by (cases "getAttribute C (clause_attribute c)") (simp_all add: evaluateClause_def)

lemma evaluateClause_gt:
  "clause_operator c = ''gt'' \<Longrightarrow>
     evaluateClause J c C =
       (case getAttribute C (clause_attribute c) of None \<Rightarrow> False
        | Some a \<Rightarrow> evaluateGreaterThan J (getValues a) (clause_value c))"
  by (cases "getAttribute C (clause_attribute c)") (simp_all add: evaluateClause_def)

lemma evaluateClause_gte:
  "clause_operator c = ''gte'' \<Longrightarrow>
     evaluateClause J c C =
       (case getAttribute C (clause_attribute c) of None \<Rightarrow> False
        | Some a \<Rightarrow> evaluateGreaterThanOrEqual J (getValues a) (clause_value c))"
  by (cases "getAttribute C (clause_attribute c)") (simp_all add: evaluateClause_def)

lemma evaluateClause_lt:
  "clause_operator c = ''lt'' \<Longrightarrow>
     evaluateClause J c C =
       (case getAttribute C (clause_attribute c) of None \<Rightarrow> False
        | Some a \<Rightarrow> evaluateLessThan J (getValues a) (clause_value c))"
  by (cases "getAttribute C (clause_attribute c)") (simp_all add: evaluateClause_def)

lemma evaluateClause_lte:
  "clause_operator c = ''lte'' \<Longrightarrow>
     evaluateClause J c C =
       (case getAttribute C (clause_attribute c) of None \<Rightarrow> False
        | Some a \<Rightarrow> evaluateLessThanOrEqual J (getValues a) (clause_value c))"
  by (cases "getAttribute C (clause_attribute c)") (simp_all add: evaluateClause_def)

lemmas evaluateClause_dispatch =
  evaluateClause_equals evaluateClause_not_equals evaluateClause_contains evaluateClause_not_contains
  evaluateClause_in evaluateClause_not_in evaluateClause_starts_with evaluateClause_ends_with
  evaluateClause_gt evaluateClause_gte evaluateClause_lt evaluateClause_lte

lemma evaluateClause_unknown:
  "clause_operator c \<notin> {''equals'', ''not_equals'', ''contains'', ''not_contains'', ''in'', ''not_in'',
      ''starts_with'', ''ends_with'', ''gt'', ''gte'', ''lt'', ''lte''} \<Longrightarrow> \<not> evaluateClause J c C"
  by (cases "getAttribute C (clause_attribute c)") (simp_all add: evaluateClause_def)

lemma evaluate_undefined_value:
  "\<not> evaluateEquals vs None" "\<not> evaluateContains vs None" "\<not> evaluateIn vs None"
  "\<not> evaluateStartsWith vs None" "\<not> evaluateEndsWith vs None"
  "\<not> evaluateGreaterThan J vs None" "\<not> evaluateGreaterThanOrEqual J vs None"
  "\<not> evaluateLessThan J vs None" "\<not> evaluateLessThanOrEqual J vs None"
  by (simp_all add: evaluateEquals_def evaluateContains_def evaluateIn_def evaluateStartsWith_def
        evaluateEndsWith_def evaluateGreaterThan_def evaluateGreaterThanOrEqual_def
        evaluateLessThan_def evaluateLessThanOrEqual_def)

lemma numeric_comparison_iff:
  "evaluateGreaterThan J vs cvo =
     (\<exists>cv. cvo = Some cv \<and> \<not> isNaN J (parseFloat J (ToString (firstTarget cv))) \<and>
        (\<exists>v \<in> set vs. \<not> isNaN J (parseFloat J v) \<and>
           num_gt J (parseFloat J v) (parseFloat J (ToString (firstTarget cv)))))"
  "evaluateGreaterThanOrEqual J vs cvo =
     (\<exists>cv. cvo = Some cv \<and> \<not> isNaN J (parseFloat J (ToString (firstTarget cv))) \<and>
        (\<exists>v \<in> set vs. \<not> isNaN J (parseFloat J v) \<and>
           num_ge J (parseFloat J v) (parseFloat J (ToString (firstTarget cv)))))"
  "evaluateLessThan J vs cvo =
     (\<exists>cv. cvo = Some cv \<and> \<not> isNaN J (parseFloat J (ToString (firstTarget cv))) \<and>
        (\<exists>v \<in> set vs. \<not> isNaN J (parseFloat J v) \<and>
           num_lt J (parseFloat J v) (parseFloat J (ToString (firstTarget cv)))))"
  "evaluateLessThanOrEqual J vs cvo =
     (\<exists>cv. cvo = Some cv \<and> \<not> isNaN J (parseFloat J (ToString (firstTarget cv))) \<and>
        (\<exists>v \<in> set vs. \<not> isNaN J (parseFloat J v) \<and>
           num_le J (parseFloat J v) (parseFloat J (ToString (firstTarget cv)))))"
  by (cases cvo; simp add: evaluateGreaterThan_def evaluateGreaterThanOrEqual_def
        evaluateLessThan_def evaluateLessThanOrEqual_def list_ex_iff Let_def)+

lemma spec_numeric_match_alt:
  "spec_numeric_match J cmp c C =
     (case getAttribute C (clause_attribute c) of None \<Rightarrow> False
      | Some a \<Rightarrow>
          (\<exists>cv. clause_value c = Some cv \<and>
             \<not> isNaN J (parseFloat J (ToString (firstTarget cv))) \<and>
             (\<exists>v \<in> set (getValues a). \<not> isNaN J (parseFloat J v) \<and>
                cmp (parseFloat J v) (parseFloat J (ToString (firstTarget cv))))))"
  by (cases "getAttribute C (clause_attribute c)") (simp_all add: spec_numeric_match_def)

section \<open>Clauses on absent attributes, and the negated operators\<close>

text \<open>
  C2. A clause whose attribute is absent from the context does not match, whatever its
  operator is (the operator is any string, so this covers \<open>not_equals\<close>, \<open>not_contains\<close>,
  \<open>not_in\<close> and unknown operators). When the attribute is present, the clause with
  \<open>not_equals\<close>, \<open>not_contains\<close> or \<open>not_in\<close> matches exactly when the same clause with
  \<open>equals\<close>, \<open>contains\<close> or \<open>in\<close> does not.
\<close>

theorem absent_attribute_never_matches:
  "(getAttribute C (clause_attribute c) = None \<longrightarrow> \<not> evaluateClause J c C) \<and>
   (getAttribute C (clause_attribute c) \<noteq> None \<longrightarrow>
      evaluateClause J (c\<lparr>clause_operator := ''not_equals''\<rparr>) C
        = (\<not> evaluateClause J (c\<lparr>clause_operator := ''equals''\<rparr>) C) \<and>
      evaluateClause J (c\<lparr>clause_operator := ''not_contains''\<rparr>) C
        = (\<not> evaluateClause J (c\<lparr>clause_operator := ''contains''\<rparr>) C) \<and>
      evaluateClause J (c\<lparr>clause_operator := ''not_in''\<rparr>) C
        = (\<not> evaluateClause J (c\<lparr>clause_operator := ''in''\<rparr>) C))"
proof (cases "getAttribute C (clause_attribute c)")
  case None
  then show ?thesis by (simp add: evaluateClause_absent)
next
  case (Some a)
  then show ?thesis by (simp add: evaluateClause_dispatch)
qed

theorem absent_attribute_never_matches_witness:
  "getAttribute ctx_CA ''plan'' = None \<and>
   \<not> evaluateClause sampleJS (mkClause ''plan'' ''not_equals'' (Some (Single ''basic''))) ctx_CA \<and>
   getAttribute ctx_CA ''country'' \<noteq> None \<and>
   \<not> evaluateClause sampleJS (mkClause ''country'' ''equals'' (Some (Single ''US''))) ctx_CA \<and>
   evaluateClause sampleJS (mkClause ''country'' ''not_equals'' (Some (Single ''US''))) ctx_CA"
proof -
  have a: "getAttribute ctx_CA ''plan'' = None"
    and p: "getAttribute ctx_CA ''country'' \<noteq> None"
    by (simp_all add: data_defs sample_defs getAttribute_def)
  have n: "\<not> evaluateClause sampleJS (mkClause ''country'' ''equals'' (Some (Single ''US''))) ctx_CA"
    by (simp add: data_defs sample_defs engine_defs)
  have "\<not> evaluateClause sampleJS (mkClause ''plan'' ''not_equals'' (Some (Single ''basic''))) ctx_CA"
    using absent_attribute_never_matches
            [of ctx_CA "mkClause ''plan'' ''not_equals'' (Some (Single ''basic''))" sampleJS] a
    by (simp add: mkClause_def)
  moreover
  have "evaluateClause sampleJS (mkClause ''country'' ''not_equals'' (Some (Single ''US''))) ctx_CA"
    using absent_attribute_never_matches
            [of ctx_CA "mkClause ''country'' ''equals'' (Some (Single ''US''))" sampleJS] p n
    by (simp add: mkClause_def)
  ultimately show ?thesis using a p n by blast
qed

text \<open>
  C10. When the attribute of a clause is present in the context and the clause has no
  value (\<open>undefined\<close>), the clause does not match under \<open>equals\<close>, \<open>contains\<close>, \<open>in\<close>,
  \<open>starts_with\<close>, \<open>ends_with\<close>, \<open>gt\<close>, \<open>gte\<close>, \<open>lt\<close> and \<open>lte\<close>, and it matches under
  \<open>not_equals\<close>, \<open>not_contains\<close> and \<open>not_in\<close>.
\<close>

theorem undefined_clause_value:
  "getAttribute C (clause_attribute c) \<noteq> None \<and> clause_value c = None \<longrightarrow>
     (clause_operator c \<in> {''equals'', ''contains'', ''in'', ''starts_with'', ''ends_with'',
                           ''gt'', ''gte'', ''lt'', ''lte''} \<longrightarrow> \<not> evaluateClause J c C) \<and>
     (clause_operator c \<in> {''not_equals'', ''not_contains'', ''not_in''} \<longrightarrow> evaluateClause J c C)"
proof (intro impI conjI; elim conjE)
  assume p: "getAttribute C (clause_attribute c) \<noteq> None" and u: "clause_value c = None"
  from p obtain a where a: "getAttribute C (clause_attribute c) = Some a" by blast
  {
    assume "clause_operator c \<in> {''equals'', ''contains'', ''in'', ''starts_with'', ''ends_with'',
                           ''gt'', ''gte'', ''lt'', ''lte''}"
    then consider "clause_operator c = ''equals''" | "clause_operator c = ''contains''"
      | "clause_operator c = ''in''" | "clause_operator c = ''starts_with''"
      | "clause_operator c = ''ends_with''" | "clause_operator c = ''gt''"
      | "clause_operator c = ''gte''" | "clause_operator c = ''lt''" | "clause_operator c = ''lte''"
      by blast
    then show "\<not> evaluateClause J c C"
      by cases (simp_all only: evaluateClause_dispatch a u option.case evaluate_undefined_value
                  not_False_eq_True)
  }
  {
    assume "clause_operator c \<in> {''not_equals'', ''not_contains'', ''not_in''}"
    then consider "clause_operator c = ''not_equals''" | "clause_operator c = ''not_contains''"
      | "clause_operator c = ''not_in''"
      by blast
    then show "evaluateClause J c C"
      by cases (simp_all only: evaluateClause_dispatch a u option.case evaluate_undefined_value
                  not_False_eq_True)
  }
qed

theorem undefined_clause_value_witness:
  "getAttribute ctx_CA ''country'' \<noteq> None \<and>
   \<not> evaluateClause sampleJS (mkClause ''country'' ''equals'' None) ctx_CA \<and>
   \<not> evaluateClause sampleJS (mkClause ''country'' ''gt'' None) ctx_CA \<and>
   evaluateClause sampleJS (mkClause ''country'' ''not_equals'' None) ctx_CA \<and>
   evaluateClause sampleJS (mkClause ''country'' ''not_in'' None) ctx_CA"
proof -
  have p: "getAttribute ctx_CA ''country'' \<noteq> None"
    by (simp add: data_defs sample_defs getAttribute_def)
  show ?thesis
    using p
      undefined_clause_value [of ctx_CA "mkClause ''country'' ''equals'' None" sampleJS]
      undefined_clause_value [of ctx_CA "mkClause ''country'' ''gt'' None" sampleJS]
      undefined_clause_value [of ctx_CA "mkClause ''country'' ''not_equals'' None" sampleJS]
      undefined_clause_value [of ctx_CA "mkClause ''country'' ''not_in'' None" sampleJS]
    by (simp add: mkClause_def)
qed

section \<open>Numeric operators\<close>

text \<open>
  C5. Under \<open>gt\<close>, \<open>gte\<close>, \<open>lt\<close> and \<open>lte\<close> the target (the first element when the clause
  value is a list) and every attribute value are parsed with \<open>parseFloat\<close>; the result of
  the clause is a boolean in every case (nothing is raised), and the clause matches iff
  the attribute is present, the target parses and at least one attribute value parses
  and satisfies the comparison against the target. A value that does not parse
  contributes nothing; a target that does not parse makes the clause false.
\<close>

theorem numeric_operators_match_iff_some_value_parses_and_compares:
  "(clause_operator c = ''gt'' \<longrightarrow>
      evaluateClause J c C = spec_numeric_match J (num_gt J) c C) \<and>
   (clause_operator c = ''gte'' \<longrightarrow>
      evaluateClause J c C = spec_numeric_match J (num_ge J) c C) \<and>
   (clause_operator c = ''lt'' \<longrightarrow>
      evaluateClause J c C = spec_numeric_match J (num_lt J) c C) \<and>
   (clause_operator c = ''lte'' \<longrightarrow>
      evaluateClause J c C = spec_numeric_match J (num_le J) c C)"
proof (intro conjI impI)
  assume "clause_operator c = ''gt''"
  then show "evaluateClause J c C = spec_numeric_match J (num_gt J) c C"
    by (simp only: evaluateClause_gt spec_numeric_match_alt numeric_comparison_iff)
next
  assume "clause_operator c = ''gte''"
  then show "evaluateClause J c C = spec_numeric_match J (num_ge J) c C"
    by (simp only: evaluateClause_gte spec_numeric_match_alt numeric_comparison_iff)
next
  assume "clause_operator c = ''lt''"
  then show "evaluateClause J c C = spec_numeric_match J (num_lt J) c C"
    by (simp only: evaluateClause_lt spec_numeric_match_alt numeric_comparison_iff)
next
  assume "clause_operator c = ''lte''"
  then show "evaluateClause J c C = spec_numeric_match J (num_le J) c C"
    by (simp only: evaluateClause_lte spec_numeric_match_alt numeric_comparison_iff)
qed

theorem numeric_operators_match_iff_some_value_parses_and_compares_witness:
  "evaluateClause sampleJS (mkClause ''age'' ''gt'' (Some (Single ''18''))) ctx_CA \<and>
   spec_numeric_match sampleJS (num_gt sampleJS)
     (mkClause ''age'' ''gt'' (Some (Single ''18''))) ctx_CA \<and>
   evaluateClause sampleJS (mkClause ''age'' ''gte'' (Some (Multi [''25'', ''99'']))) ctx_CA \<and>
   spec_numeric_match sampleJS (num_ge sampleJS)
     (mkClause ''age'' ''gte'' (Some (Multi [''25'', ''99'']))) ctx_CA \<and>
   \<not> evaluateClause sampleJS (mkClause ''age'' ''lt'' (Some (Single ''18''))) ctx_CA \<and>
   \<not> spec_numeric_match sampleJS (num_lt sampleJS)
     (mkClause ''age'' ''lt'' (Some (Single ''18''))) ctx_CA \<and>
   \<not> evaluateClause sampleJS (mkClause ''age'' ''lte'' (Some (Single ''many''))) ctx_CA \<and>
   \<not> spec_numeric_match sampleJS (num_le sampleJS)
     (mkClause ''age'' ''lte'' (Some (Single ''many''))) ctx_CA"
proof -
  have e: "evaluateClause sampleJS (mkClause ''age'' ''gt'' (Some (Single ''18''))) ctx_CA"
    "evaluateClause sampleJS (mkClause ''age'' ''gte'' (Some (Multi [''25'', ''99'']))) ctx_CA"
    "\<not> evaluateClause sampleJS (mkClause ''age'' ''lt'' (Some (Single ''18''))) ctx_CA"
    "\<not> evaluateClause sampleJS (mkClause ''age'' ''lte'' (Some (Single ''many''))) ctx_CA"
    by (simp_all add: data_defs sample_defs engine_defs sampleJS_def digit_value_def both_def)
  have o: "clause_operator (mkClause ''age'' ''gt'' (Some (Single ''18''))) = ''gt''"
    "clause_operator (mkClause ''age'' ''gte'' (Some (Multi [''25'', ''99'']))) = ''gte''"
    "clause_operator (mkClause ''age'' ''lt'' (Some (Single ''18''))) = ''lt''"
    "clause_operator (mkClause ''age'' ''lte'' (Some (Single ''many''))) = ''lte''"
    by (simp_all add: mkClause_def)
  show ?thesis
    using e o
      numeric_operators_match_iff_some_value_parses_and_compares
        [of "mkClause ''age'' ''gt'' (Some (Single ''18''))" sampleJS ctx_CA]
      numeric_operators_match_iff_some_value_parses_and_compares
        [of "mkClause ''age'' ''gte'' (Some (Multi [''25'', ''99'']))" sampleJS ctx_CA]
      numeric_operators_match_iff_some_value_parses_and_compares
        [of "mkClause ''age'' ''lt'' (Some (Single ''18''))" sampleJS ctx_CA]
      numeric_operators_match_iff_some_value_parses_and_compares
        [of "mkClause ''age'' ''lte'' (Some (Single ''many''))" sampleJS ctx_CA]
    by blast
qed

section \<open>Evaluating a flag against the current context\<close>

lemma evaluateFlag_no_rules: "flag_rules F = [] \<Longrightarrow> evaluateFlag J m F = F"
  by (simp add: evaluateFlag_def getRules_def)

lemma evaluateFlag_no_match:
  "evaluate J (flag_rules F) (mgr_context m) = None \<Longrightarrow> evaluateFlag J m F = F"
  by (simp add: evaluateFlag_def getRules_def Let_def)

lemma evaluate_Some_nonempty: "evaluate J R C = Some r \<Longrightarrow> R \<noteq> []"
  by (cases R) simp_all

lemma evaluateFlag_match:
  assumes "evaluate J (flag_rules F) (mgr_context m) = Some r"
  shows "evaluateFlag J m F =
     \<lparr>flag_version = flag_version F, flag_type = flag_type F, flag_key = flag_key F,
      flag_name = flag_name F,
      flag_target = (flag_target F)\<lparr>target_value := rule_value r\<rparr>,
      flag_rules = flag_rules F\<rparr>"
  using assms evaluate_Some_nonempty [OF assms]
  by (simp add: evaluateFlag_def getRules_def getTarget_def getVersion_def getType_def
        getKey_def getName_def Let_def)

text \<open>
  C4. For every flag \<open>F\<close> and current context: when \<open>F\<close> has no rules, evaluating \<open>F\<close>
  returns \<open>F\<close>; when the rule engine returns a rule, the result is a flag with the version,
  type, key, name and rules of \<open>F\<close>, whose target holds the value of that rule and the
  version, \<open>expired_at\<close>, \<open>published_at\<close> and \<open>scheduled_at\<close> of the target of \<open>F\<close>; when no
  rule matches, the result is \<open>F\<close>.
\<close>

theorem evaluateFlag_frame:
  "(flag_rules F = [] \<longrightarrow> evaluateFlag J m F = F) \<and>
   (\<forall>r. evaluate J (flag_rules F) (mgr_context m) = Some r \<longrightarrow>
      flag_version (evaluateFlag J m F) = flag_version F \<and>
      flag_type (evaluateFlag J m F) = flag_type F \<and>
      flag_key (evaluateFlag J m F) = flag_key F \<and>
      flag_name (evaluateFlag J m F) = flag_name F \<and>
      flag_rules (evaluateFlag J m F) = flag_rules F \<and>
      target_value (flag_target (evaluateFlag J m F)) = rule_value r \<and>
      target_version (flag_target (evaluateFlag J m F)) = target_version (flag_target F) \<and>
      expired_at (flag_target (evaluateFlag J m F)) = expired_at (flag_target F) \<and>
      published_at (flag_target (evaluateFlag J m F)) = published_at (flag_target F) \<and>
      scheduled_at (flag_target (evaluateFlag J m F)) = scheduled_at (flag_target F)) \<and>
   (evaluate J (flag_rules F) (mgr_context m) = None \<longrightarrow> evaluateFlag J m F = F)"
  by (simp add: evaluateFlag_no_rules evaluateFlag_no_match evaluateFlag_match)

theorem evaluateFlag_frame_witness:
  "flag_rules flag_plain = [] \<and> evaluateFlag sampleJS mgr_CA flag_plain = flag_plain \<and>
   evaluate sampleJS (flag_rules flag_country) (mgr_context mgr_CA) = Some rule_CA \<and>
   flag_key (evaluateFlag sampleJS mgr_CA flag_country) = ''feature'' \<and>
   flag_type (evaluateFlag sampleJS mgr_CA flag_country) = TBoolean \<and>
   flag_rules (evaluateFlag sampleJS mgr_CA flag_country) = sample_rules \<and>
   target_value (flag_target (evaluateFlag sampleJS mgr_CA flag_country))
     = mkEnvelope [(''string'', JStr ''maple'')] \<and>
   expired_at (flag_target (evaluateFlag sampleJS mgr_CA flag_country)) = None \<and>
   evaluate sampleJS (flag_rules flag_US) (mgr_context mgr_CA) = None \<and>
   evaluateFlag sampleJS mgr_CA flag_US = flag_US"
proof -
  have c: "mgr_context mgr_CA = ctx_CA" by (simp add: mgr_CA_def)
  have r: "flag_rules flag_plain = []" "flag_rules flag_country = sample_rules"
    "flag_rules flag_US = [rule_US]"
    by (simp_all add: flag_plain_def flag_country_def flag_US_def mkFlag_def)
  have e: "evaluate sampleJS (flag_rules flag_country) (mgr_context mgr_CA) = Some rule_CA"
    unfolding c r by (simp add: data_defs sample_defs engine_defs)
  have n: "evaluate sampleJS (flag_rules flag_US) (mgr_context mgr_CA) = None"
    unfolding c r by (simp add: data_defs sample_defs engine_defs)
  have v: "rule_value rule_CA = mkEnvelope [(''string'', JStr ''maple'')]"
    by (simp add: rule_CA_def mkRule_def)
  have k: "flag_key flag_country = ''feature''" "flag_type flag_country = TBoolean"
    "expired_at (flag_target flag_country) = None"
    by (simp_all add: flag_country_def mkFlag_def mkTarget_def)
  note h1 = evaluateFlag_frame [of flag_plain sampleJS mgr_CA]
  note h2 = evaluateFlag_frame [of flag_country sampleJS mgr_CA]
  note h3 = evaluateFlag_frame [of flag_US sampleJS mgr_CA]
  from h1 r have "evaluateFlag sampleJS mgr_CA flag_plain = flag_plain" by blast
  moreover from h3 n have "evaluateFlag sampleJS mgr_CA flag_US = flag_US" by blast
  moreover from h2 e have "flag_key (evaluateFlag sampleJS mgr_CA flag_country) = flag_key flag_country \<and>
      flag_type (evaluateFlag sampleJS mgr_CA flag_country) = flag_type flag_country \<and>
      flag_rules (evaluateFlag sampleJS mgr_CA flag_country) = flag_rules flag_country \<and>
      target_value (flag_target (evaluateFlag sampleJS mgr_CA flag_country)) = rule_value rule_CA \<and>
      expired_at (flag_target (evaluateFlag sampleJS mgr_CA flag_country))
        = expired_at (flag_target flag_country)"
    by blast
  ultimately show ?thesis using r e n v k by simp
qed

section \<open>Looking up a single flag, and the order of the defaults\<close>

lemma ensureRulesLoaded_loaded:
  "mgr_flags m = Some fs \<Longrightarrow> ensureRulesLoaded E m w = (Inr (), m, w)"
  by (simp add: ensureRulesLoaded_def)

lemma single_loaded:
  assumes "mgr_flags m = Some fs"
  shows "fst (single J E k dv m w) =
     (case find (\<lambda>flag. flag_key flag = k) fs of
        Some flag \<Rightarrow> Inr (evaluateFlag J m flag)
      | None \<Rightarrow>
          (case dv of
             Some v \<Rightarrow> Inr (createFlagFromDefault k v)
           | None \<Rightarrow>
               (case mgr_defaults m k of
                  Some v \<Rightarrow> Inr (createFlagFromDefault k v)
                | None \<Rightarrow> Inl (EvaluationError (''Flag not found: '' @ k)))))"
  using assms
  by (simp add: single_def ensureRulesLoaded_loaded [OF assms] loadedFlags_def getKey_def
        defaults_has_def defaults_get_def split: option.split)

lemma createFlagFromDefault_value:
  "getValue (createFlagFromDefault k v) = FlagValue_js v"
  "flag_key (createFlagFromDefault k v) = k"
  by (cases v; simp add: createFlagFromDefault_def getValue_def flag_envelope_def has_key_def
        get_prop_def FlagValue_js_def)+

theorem single_priority:
  "mgr_flags m = Some fs \<longrightarrow>
     (\<forall>f. find (\<lambda>flag. flag_key flag = k) fs = Some f \<longrightarrow>
        fst (single J E k dv m w) = Inr (evaluateFlag J m f)) \<and>
     ((\<forall>f \<in> set fs. flag_key f \<noteq> k) \<longrightarrow>
        (\<forall>v. dv = Some v \<longrightarrow> fst (single J E k dv m w) = Inr (createFlagFromDefault k v)) \<and>
        (\<forall>v. dv = None \<and> mgr_defaults m k = Some v \<longrightarrow>
           fst (single J E k dv m w) = Inr (createFlagFromDefault k v)) \<and>
        (dv = None \<and> mgr_defaults m k = None \<longrightarrow>
           fst (single J E k dv m w) = Inl (EvaluationError (''Flag not found: '' @ k)))) \<and>
     (\<forall>v. getValue (createFlagFromDefault k v :: 'n Flag) = FlagValue_js v \<and>
          flag_key (createFlagFromDefault k v :: 'n Flag) = k)"
proof (intro impI conjI allI ballI; (elim conjE)?)
  fix f assume l: "mgr_flags m = Some fs" and "find (\<lambda>flag. flag_key flag = k) fs = Some f"
  then show "fst (single J E k dv m w) = Inr (evaluateFlag J m f)"
    by (simp add: single_loaded [OF l])
next
  fix v assume l: "mgr_flags m = Some fs" and a: "\<forall>f \<in> set fs. flag_key f \<noteq> k" and "dv = Some v"
  moreover from a have "find (\<lambda>flag. flag_key flag = k) fs = None" by (simp add: find_None_iff)
  ultimately show "fst (single J E k dv m w) = Inr (createFlagFromDefault k v)"
    by (simp add: single_loaded [OF l])
next
  fix v assume l: "mgr_flags m = Some fs" and a: "\<forall>f \<in> set fs. flag_key f \<noteq> k"
    and "dv = None" "mgr_defaults m k = Some v"
  moreover from a have "find (\<lambda>flag. flag_key flag = k) fs = None" by (simp add: find_None_iff)
  ultimately show "fst (single J E k dv m w) = Inr (createFlagFromDefault k v)"
    by (simp add: single_loaded [OF l])
next
  assume l: "mgr_flags m = Some fs" and a: "\<forall>f \<in> set fs. flag_key f \<noteq> k"
    and "dv = None" "mgr_defaults m k = None"
  moreover from a have "find (\<lambda>flag. flag_key flag = k) fs = None" by (simp add: find_None_iff)
  ultimately show "fst (single J E k dv m w) = Inl (EvaluationError (''Flag not found: '' @ k))"
    by (simp add: single_loaded [OF l])
qed (simp_all add: createFlagFromDefault_value)

theorem single_priority_witness:
  "mgr_flags mgr_CA = Some [flag_plain, flag_country, flag_US] \<and>
   mgr_defaults mgr_CA ''greeting'' = Some (VStr ''unused'') \<and>
   fst (single sampleJS api_down ''greeting'' (Some (VStr ''A'')) mgr_CA world0) = Inr flag_plain \<and>
   mgr_defaults mgr_CA ''x'' = Some (VStr ''B'') \<and>
   fst (single sampleJS api_down ''x'' (Some (VStr ''A'')) mgr_CA world0)
     = Inr (createFlagFromDefault ''x'' (VStr ''A'')) \<and>
   asString sampleJS (createFlagFromDefault ''x'' (VStr ''A'')) = ''A'' \<and>
   fst (single sampleJS api_down ''x'' None mgr_CA world0)
     = Inr (createFlagFromDefault ''x'' (VStr ''B'')) \<and>
   asString sampleJS (createFlagFromDefault ''x'' (VStr ''B'')) = ''B'' \<and>
   mgr_defaults mgr_CA ''y'' = None \<and>
   fst (single sampleJS api_down ''y'' None mgr_CA world0)
     = Inl (EvaluationError ''Flag not found: y'')"
proof -
  have l: "mgr_flags mgr_CA = Some [flag_plain, flag_country, flag_US]"
    and d: "mgr_defaults mgr_CA ''greeting'' = Some (VStr ''unused'')"
      "mgr_defaults mgr_CA ''x'' = Some (VStr ''B'')" "mgr_defaults mgr_CA ''y'' = None"
    by (simp_all add: mgr_CA_def)
  have keys: "flag_key flag_plain = ''greeting''" "flag_key flag_country = ''feature''"
    "flag_key flag_US = ''us-only''"
    by (simp_all add: flag_plain_def flag_country_def flag_US_def mkFlag_def)
  have f: "find (\<lambda>flag. flag_key flag = ''greeting'') [flag_plain, flag_country, flag_US]
      = Some flag_plain"
    by (simp add: keys)
  have a: "\<forall>f \<in> set [flag_plain, flag_country, flag_US]. flag_key f \<noteq> ''x''"
    "\<forall>f \<in> set [flag_plain, flag_country, flag_US]. flag_key f \<noteq> ''y''"
    by (simp_all add: keys)
  have p: "evaluateFlag sampleJS mgr_CA flag_plain = flag_plain"
    by (simp add: evaluateFlag_def getRules_def flag_plain_def mkFlag_def)
  have s: "asString sampleJS (createFlagFromDefault ''x'' (VStr ''A'')) = ''A''"
    "asString sampleJS (createFlagFromDefault ''x'' (VStr ''B'')) = ''B''"
    by (simp_all add: asString_def createFlagFromDefault_def flag_envelope_def has_key_def
          get_prop_def String_js_def)
  note h1 = single_priority [of mgr_CA "[flag_plain, flag_country, flag_US]" "''greeting''"
      sampleJS api_down "Some (VStr ''A'')" world0]
  note h2 = single_priority [of mgr_CA "[flag_plain, flag_country, flag_US]" "''x''"
      sampleJS api_down "Some (VStr ''A'')" world0]
  note h3 = single_priority [of mgr_CA "[flag_plain, flag_country, flag_US]" "''x''"
      sampleJS api_down None world0]
  note h4 = single_priority [of mgr_CA "[flag_plain, flag_country, flag_US]" "''y''"
      sampleJS api_down None world0]
  from h1 l f
  have "fst (single sampleJS api_down ''greeting'' (Some (VStr ''A'')) mgr_CA world0)
      = Inr (evaluateFlag sampleJS mgr_CA flag_plain)"
    by blast
  with p
  have "fst (single sampleJS api_down ''greeting'' (Some (VStr ''A'')) mgr_CA world0) = Inr flag_plain"
    by simp
  moreover from h2 l a(1)
  have "fst (single sampleJS api_down ''x'' (Some (VStr ''A'')) mgr_CA world0)
     = Inr (createFlagFromDefault ''x'' (VStr ''A''))"
    by blast
  moreover from h3 l a(1) d(2)
  have "fst (single sampleJS api_down ''x'' None mgr_CA world0)
     = Inr (createFlagFromDefault ''x'' (VStr ''B''))"
    by blast
  moreover from h4 l a(2) d(3)
  have "fst (single sampleJS api_down ''y'' None mgr_CA world0)
     = Inl (EvaluationError (''Flag not found: '' @ ''y''))"
    by blast
  ultimately show ?thesis using l d s by simp
qed

section \<open>Loading the rules from the remote source\<close>

lemma loadRulesFromApi_failure:
  "api_getRules E = Inl e \<Longrightarrow> loadRulesFromApi E m w = (Inl e, m\<lparr>mgr_flags := Some []\<rparr>, w)"
  by (simp add: loadRulesFromApi_def)

lemma loadRulesFromApi_success:
  "api_getRules E = Inr resp \<Longrightarrow>
     loadRulesFromApi E m w =
       (Inr (), m\<lparr>mgr_flags := Some (map fromObject (resp_flags resp))\<rparr>,
        w\<lparr>cache_state := cache_set E CACHE_KEY (JSON_stringify E resp) (Some (cacheTtl E))
                            (cache_state w)\<rparr>)"
  by (simp add: loadRulesFromApi_def)

lemma InMemoryCache_get_after_set:
  "now \<le> t + ttl * 1000 \<Longrightarrow>
     fst (InMemoryCache_get k now (InMemoryCache_set k v (Some ttl) t s)) = Some v"
  by (simp add: InMemoryCache_get_def InMemoryCache_set_def)

text \<open>
  C6. When the fetch collaborator raises, \<open>loadRulesFromApi\<close> sets the flags of the manager
  to the empty list (they are loaded, so a later \<open>ensureRulesLoaded\<close> does nothing), leaves
  the cache as it was and raises the same error. When the fetch returns a document, the
  flags are replaced by those of the document, whatever they were, and the serialized
  document is written to the cache under the key \<open>zenmanage_rules\<close> with the configured
  time-to-live; with the in-memory cache a read of that key until the deadline returns
  the serialized document.
\<close>

theorem loadRulesFromApi_outcomes:
  "(\<forall>e. api_getRules E = Inl e \<longrightarrow>
      loadRulesFromApi E m w = (Inl e, m\<lparr>mgr_flags := Some []\<rparr>, w) \<and>
      ensureRulesLoaded E (m\<lparr>mgr_flags := Some []\<rparr>) w = (Inr (), m\<lparr>mgr_flags := Some []\<rparr>, w)) \<and>
   (\<forall>resp. api_getRules E = Inr resp \<longrightarrow>
      loadRulesFromApi E m w =
        (Inr (), m\<lparr>mgr_flags := Some (map fromObject (resp_flags resp))\<rparr>,
         w\<lparr>cache_state := cache_set E CACHE_KEY (JSON_stringify E resp) (Some (cacheTtl E))
                             (cache_state w)\<rparr>)) \<and>
   (\<forall>resp now. now \<le> tw + ttl * 1000 \<longrightarrow>
      fst (InMemoryCache_get ''zenmanage_rules'' now
             (cache_state (snd (snd (loadRulesFromApi
                (memoryCollaborators (Inr resp) ttl tr tw str parse) m' w')))))
        = Some (str resp))"
  by (simp add: loadRulesFromApi_failure loadRulesFromApi_success ensureRulesLoaded_def
        memoryCollaborators_def CACHE_KEY_def InMemoryCache_get_after_set)

theorem loadRulesFromApi_outcomes_witness:
  "api_getRules api_down = Inl (FetchRulesError ''Failed to fetch rules after 3 attempts'' None) \<and>
   loadRulesFromApi api_down (mgr_CA\<lparr>mgr_flags := None\<rparr>) world0
     = (Inl (FetchRulesError ''Failed to fetch rules after 3 attempts'' None),
        mgr_CA\<lparr>mgr_flags := Some []\<rparr>, world0) \<and>
   api_getRules api_up = Inr sample_response \<and>
   mgr_flags (fst (snd (loadRulesFromApi api_up mgr_CA world0))) = Some [flag_plain] \<and>
   fst (InMemoryCache_get ''zenmanage_rules'' 3600000
          (cache_state (snd (snd (loadRulesFromApi api_up mgr_CA world0)))))
     = Some ''document 7''"
proof -
  have d: "api_getRules api_down
      = Inl (FetchRulesError ''Failed to fetch rules after 3 attempts'' None)"
    and u: "api_getRules api_up = Inr sample_response"
    by (simp_all add: api_down_def api_up_def memoryCollaborators_def)
  have fo: "map fromObject (resp_flags sample_response) = [flag_plain]"
    by (simp add: sample_response_def fromObject_def flag_plain_def mkFlag_def)
  have t: "(3600000::real) \<le> 0 + 3600 * 1000" by simp
  note h1 = loadRulesFromApi_outcomes [where E = api_down
      and m = "mgr_CA\<lparr>mgr_flags := None\<rparr>" and w = world0
      and tw = 0 and ttl = 3600 and tr = 0 and str = "\<lambda>r. ''document '' @ resp_version r"
      and parse = "\<lambda>t. None" and m' = mgr_CA and w' = world0]
  note h2 = loadRulesFromApi_outcomes [where E = api_up and m = mgr_CA and w = world0
      and tw = 0 and ttl = 3600 and tr = 0 and str = "\<lambda>r. ''document '' @ resp_version r"
      and parse = "\<lambda>t. None" and m' = mgr_CA and w' = world0]
  from h1 d have "loadRulesFromApi api_down (mgr_CA\<lparr>mgr_flags := None\<rparr>) world0
     = (Inl (FetchRulesError ''Failed to fetch rules after 3 attempts'' None),
        mgr_CA\<lparr>mgr_flags := Some []\<rparr>, world0)"
    by simp
  moreover from h2 u fo
  have "mgr_flags (fst (snd (loadRulesFromApi api_up mgr_CA world0))) = Some [flag_plain]"
    by simp
  moreover from h2 t
  have "fst (InMemoryCache_get ''zenmanage_rules'' 3600000
          (cache_state (snd (snd (loadRulesFromApi api_up mgr_CA world0)))))
     = Some ''document 7''"
    by (simp add: api_up_def sample_response_def)
  ultimately show ?thesis using d u by blast
qed

section \<open>The in-memory cache\<close>

lemma InMemoryCache_get_Some_iff:
  "fst (InMemoryCache_get k now s) = Some v \<longleftrightarrow>
     (\<exists>item. s k = Some item \<and> item_value item = v \<and>
        (expires item = None \<or> (\<exists>e. expires item = Some e \<and> \<not> e < now)))"
  by (cases "s k") (auto simp: InMemoryCache_get_def split: option.splits)

lemma InMemoryCache_get_expired:
  "s k = Some item \<Longrightarrow> expires item = Some e \<Longrightarrow> e < now \<Longrightarrow>
     InMemoryCache_get k now s = (None, s(k := None))"
  by (simp add: InMemoryCache_get_def)

lemma InMemoryCache_get_keeps:
  "fst (InMemoryCache_get k now s) \<noteq> None \<or> s k = None \<Longrightarrow> snd (InMemoryCache_get k now s) = s"
  by (cases "s k") (auto simp: InMemoryCache_get_def split: if_splits)

lemma InMemoryCache_set_no_ttl:
  "InMemoryCache_get k now' (InMemoryCache_set k v None now s)
     = (Some v, InMemoryCache_set k v None now s)"
  by (simp add: InMemoryCache_get_def InMemoryCache_set_def)

lemma InMemoryCache_other_keys:
  "k' \<noteq> k \<Longrightarrow> snd (InMemoryCache_get k now s) k' = s k'"
  "k' \<noteq> k \<Longrightarrow> snd (InMemoryCache_has k now s) k' = s k'"
  "k' \<noteq> k \<Longrightarrow> InMemoryCache_set k v ttl now s k' = s k'"
  "k' \<noteq> k \<Longrightarrow> InMemoryCache_delete k s k' = s k'"
  by (cases "s k"; simp add: InMemoryCache_get_def InMemoryCache_has_def InMemoryCache_set_def
        InMemoryCache_delete_def)+

text \<open>
  C7. A read of \<open>k\<close> at clock \<open>now\<close> returns a value iff the storage has an entry for \<open>k\<close>
  whose deadline is absent or not before \<open>now\<close>, and the value is the stored one. An entry
  whose deadline is before \<open>now\<close> is deleted by that read and reported absent; any other
  read leaves the storage as it was. An entry written without a time-to-live is returned
  at every later clock. \<open>has\<close> is \<open>get\<close> compared with \<open>null\<close>. No operation looks at the
  deadline of an entry under another key: \<open>get\<close>, \<open>has\<close>, \<open>set\<close> and \<open>delete\<close> on \<open>k\<close> leave
  every other entry, expired or not, in the storage, so that an entry is only ever
  evicted by a read of its own key.
\<close>

theorem InMemoryCache_lazy_expiry:
  "(fst (InMemoryCache_get k now s) = Some v \<longleftrightarrow>
      (\<exists>item. s k = Some item \<and> item_value item = v \<and>
         (expires item = None \<or> (\<exists>e. expires item = Some e \<and> \<not> e < now)))) \<and>
   (\<forall>item e. s k = Some item \<and> expires item = Some e \<and> e < now \<longrightarrow>
      InMemoryCache_get k now s = (None, s(k := None))) \<and>
   (fst (InMemoryCache_get k now s) \<noteq> None \<or> s k = None \<longrightarrow>
      snd (InMemoryCache_get k now s) = s) \<and>
   (\<forall>now'. InMemoryCache_get k now' (InMemoryCache_set k v None now s)
      = (Some v, InMemoryCache_set k v None now s)) \<and>
   InMemoryCache_has k now s
      = (fst (InMemoryCache_get k now s) \<noteq> None, snd (InMemoryCache_get k now s)) \<and>
   (\<forall>k'. k' \<noteq> k \<longrightarrow>
      snd (InMemoryCache_get k now s) k' = s k' \<and>
      snd (InMemoryCache_has k now s) k' = s k' \<and>
      InMemoryCache_set k v ttl now s k' = s k' \<and>
      InMemoryCache_delete k s k' = s k')"
proof (intro conjI allI impI)
  show "InMemoryCache_has k now s
      = (fst (InMemoryCache_get k now s) \<noteq> None, snd (InMemoryCache_get k now s))"
    by (simp add: InMemoryCache_has_def split: prod.split)
qed (simp_all add: InMemoryCache_get_Some_iff InMemoryCache_get_expired InMemoryCache_get_keeps
       InMemoryCache_set_no_ttl InMemoryCache_other_keys)

theorem InMemoryCache_lazy_expiry_witness:
  "cache1 ''key1'' = Some \<lparr>item_value = ''value1'', expires = Some 1100\<rparr> \<and>
   fst (InMemoryCache_get ''key1'' 1000 cache1) = Some ''value1'' \<and>
   fst (InMemoryCache_get ''key1'' 1100 cache1) = Some ''value1'' \<and>
   snd (InMemoryCache_get ''key1'' 1100 cache1) = cache1 \<and>
   InMemoryCache_get ''key1'' 1150 cache1 = (None, cache1(''key1'' := None)) \<and>
   InMemoryCache_has ''key1'' 1150 cache1 = (False, cache1(''key1'' := None)) \<and>
   InMemoryCache_set ''key2'' ''value2'' None 1150 cache1 ''key1'' = cache1 ''key1'' \<and>
   fst (InMemoryCache_get ''key2'' 999999 (InMemoryCache_set ''key2'' ''value2'' None 1150 cache1))
     = Some ''value2''"
proof -
  let ?i = "\<lparr>item_value = ''value1'', expires = Some (1100::real)\<rparr>"
  have c: "cache1 ''key1'' = Some ?i"
    by (simp add: cache1_def InMemoryCache_set_def)
  have k: "''key1'' \<noteq> ''key2''" by simp
  have fresh: "\<And>t::real. \<not> 1100 < t \<Longrightarrow>
      \<exists>item. cache1 ''key1'' = Some item \<and> item_value item = ''value1'' \<and>
         (expires item = None \<or> (\<exists>e. expires item = Some e \<and> \<not> e < t))"
    using c by simp
  have stale: "cache1 ''key1'' = Some ?i \<and> expires ?i = Some 1100 \<and> (1100::real) < 1150"
    using c by simp
  note h0 = InMemoryCache_lazy_expiry [where k = "''key1''" and now = 1000 and s = cache1
      and v = "''value1''" and ttl = None]
  note h1 = InMemoryCache_lazy_expiry [where k = "''key1''" and now = 1100 and s = cache1
      and v = "''value1''" and ttl = None]
  note h2 = InMemoryCache_lazy_expiry [where k = "''key1''" and now = 1150 and s = cache1
      and v = "''value1''" and ttl = None]
  note h3 = InMemoryCache_lazy_expiry [where k = "''key2''" and now = 1150 and s = cache1
      and v = "''value2''" and ttl = None]
  have g0: "fst (InMemoryCache_get ''key1'' 1000 cache1) = Some ''value1''"
    using h0 [THEN conjunct1] fresh [of 1000] by simp
  have g1: "fst (InMemoryCache_get ''key1'' 1100 cache1) = Some ''value1''"
    using h1 [THEN conjunct1] fresh [of 1100] by simp
  have g1': "snd (InMemoryCache_get ''key1'' 1100 cache1) = cache1"
    using h1 [THEN conjunct2, THEN conjunct2, THEN conjunct1] g1 by simp
  have g2: "InMemoryCache_get ''key1'' 1150 cache1 = (None, cache1(''key1'' := None))"
    using h2 [THEN conjunct2, THEN conjunct1] stale by blast
  have g3: "InMemoryCache_has ''key1'' 1150 cache1 = (False, cache1(''key1'' := None))"
    using h2 [THEN conjunct2, THEN conjunct2, THEN conjunct2, THEN conjunct2, THEN conjunct1]
    by (simp only: g2 fst_conv snd_conv not_True_eq_False simp_thms)
  have g4: "InMemoryCache_set ''key2'' ''value2'' None 1150 cache1 ''key1'' = cache1 ''key1''"
    using h3 [THEN conjunct2, THEN conjunct2, THEN conjunct2, THEN conjunct2, THEN conjunct2,
        rule_format, OF k]
    by (simp only:)
  have g5: "fst (InMemoryCache_get ''key2'' 999999
      (InMemoryCache_set ''key2'' ''value2'' None 1150 cache1)) = Some ''value2''"
    using h3 [THEN conjunct2, THEN conjunct2, THEN conjunct2, THEN conjunct1]
    by (simp only: fst_conv)
  show ?thesis by (intro conjI) (rule c g0 g1 g1' g2 g3 g4 g5)+
qed

section \<open>The accessors of a flag\<close>

lemmas flag_defs = flag_envelope_def has_key_def get_prop_def firstValue_def Boolean_js_def
  String_js_def Number_js_def

text \<open>
  C9. A flag whose type is not \<open>boolean\<close> is never enabled, whatever its target holds; this
  includes flags on which \<open>asBool\<close> is true, such as every flag of type \<open>string\<close> whose
  value object is a non-empty string under the key \<open>string\<close>.
\<close>

theorem isEnabled_false_unless_boolean_type:
  "(flag_type f \<noteq> TBoolean \<longrightarrow> \<not> isEnabled J f) \<and>
   (\<forall>s k rs. s \<noteq> [] \<longrightarrow>
      asBool J (mkFlag TString k [(''string'', JStr s)] rs) \<and>
      \<not> isEnabled J (mkFlag TString k [(''string'', JStr s)] rs))"
  by (simp add: isEnabled_def asBool_def mkFlag_def mkTarget_def mkEnvelope_def flag_defs)

theorem isEnabled_false_unless_boolean_type_witness:
  "flag_type flag_plain \<noteq> TBoolean \<and> \<not> isEnabled sampleJS flag_plain \<and>
   asBool sampleJS flag_plain"
proof -
  have t: "flag_type flag_plain \<noteq> TBoolean" by (simp add: flag_plain_def mkFlag_def)
  have n: "''hello'' \<noteq> []" by simp
  note h = isEnabled_false_unless_boolean_type [of flag_plain sampleJS]
  from h t have "\<not> isEnabled sampleJS flag_plain" by blast
  moreover from h [THEN conjunct2, rule_format, OF n, of "''greeting''" "[]"]
  have "asBool sampleJS flag_plain" by (simp add: flag_plain_def)
  ultimately show ?thesis using t by blast
qed

text \<open>
  C8, as the specification states it: all four accessors inspect the keys in the order
  boolean, string, number. That fails for \<open>asString\<close>, \<open>asBool\<close> and \<open>asNumber\<close> on value
  objects with two of the keys: \<open>{boolean: true, string: 'x'}\<close> reads as the string
  \<open>x\<close> and not \<open>true\<close>; \<open>{string: '', number: 1}\<close> is truthy through its number and
  not falsy through its empty string; \<open>{boolean: true, number: 0}\<close> reads as the number
  0 and not 1.
\<close>

theorem accessors_order_counterexample:
  "asString sampleJS flag_boolean_string \<noteq> spec_asString sampleJS flag_boolean_string \<and>
   asBool sampleJS flag_string_number \<noteq> spec_asBool sampleJS flag_string_number \<and>
   asNumber sampleJS flag_boolean_number \<noteq> spec_asNumber sampleJS flag_boolean_number \<and>
   asString sampleJS flag_boolean_string = ''x'' \<and>
   spec_asString sampleJS flag_boolean_string = ''true'' \<and>
   asBool sampleJS flag_string_number = True \<and>
   spec_asBool sampleJS flag_string_number = False \<and>
   asNumber sampleJS flag_boolean_number = Some 0 \<and>
   spec_asNumber sampleJS flag_boolean_number = Some 1"
  by (simp add: asString_def spec_asString_def asBool_def spec_asBool_def asNumber_def
        spec_asNumber_def flag_boolean_string_def flag_string_number_def
        flag_boolean_number_def mkFlag_def mkTarget_def mkEnvelope_def flag_defs sampleJS_def)

text \<open>
  C8, amended. Each accessor takes the first key that is present in its own order of
  preference and converts the value under it: \<open>getValue\<close> boolean, string, number;
  \<open>asBool\<close> boolean, number, string; \<open>asString\<close> string, boolean, number; \<open>asNumber\<close>
  number, string, boolean. When none of the three keys is present, each falls back on the
  first property of the value object.
\<close>

theorem accessors_order_of_preference:
  "getValue f =
     (case first_present [''boolean'', ''string'', ''number''] (flag_envelope f) of
        Some k \<Rightarrow> get_prop k (flag_envelope f)
      | None \<Rightarrow> (if firstValue (flag_envelope f) \<noteq> JUndefined
                 then firstValue (flag_envelope f) else JStr [])) \<and>
   asBool J f =
     (case first_present [''boolean'', ''number'', ''string''] (flag_envelope f) of
        Some k \<Rightarrow> Boolean_js J (get_prop k (flag_envelope f))
      | None \<Rightarrow> Boolean_js J (firstValue (flag_envelope f))) \<and>
   asString J f =
     (case first_present [''string'', ''boolean'', ''number''] (flag_envelope f) of
        Some k \<Rightarrow> String_js J (get_prop k (flag_envelope f))
      | None \<Rightarrow> (if firstValue (flag_envelope f) \<noteq> JUndefined
                 then String_js J (firstValue (flag_envelope f)) else [])) \<and>
   asNumber J f =
     (let parse = (\<lambda>x. if isNaN J (parseFloat J (String_js J x)) then num_zero J
                        else parseFloat J (String_js J x))
      in case first_present [''number'', ''string'', ''boolean''] (flag_envelope f) of
           Some k \<Rightarrow>
             (if k = ''number'' then Number_js J (get_prop k (flag_envelope f))
              else if k = ''string'' then parse (get_prop k (flag_envelope f))
              else if Boolean_js J (get_prop k (flag_envelope f)) then num_one J
              else num_zero J)
         | None \<Rightarrow> (if firstValue (flag_envelope f) = JUndefined then num_zero J
                    else parse (firstValue (flag_envelope f))))"
  by (simp add: getValue_def asBool_def asString_def asNumber_def first_present_def Let_def)

end
